theory Spec2Isabelle
  imports Main "HOL-Library.Sublist"
begin

section \<open>Python values\<close>

text \<open>
  The handlers of \<^verbatim>\<open>main.py\<close> read an untyped JSON body and the JSON that the music
  provider answers, so the values they compute with are the values \<^verbatim>\<open>json.loads\<close>
  produces: \<^verbatim>\<open>None\<close>, booleans, integers, strings, lists and dictionaries with string
  keys. JSON numbers with a fraction are left out of the model. A string is a list of
  bytes (UTF-8 for text beyond ASCII); a dictionary is an association list whose first
  entry for a key is the entry of the key.
\<close>

datatype json =
    JNull
  | JBool bool
  | JInt int
  | JStr string
  | JArr "json list"
  | JObj "(string \<times> json) list"

text \<open>
  The exceptions the modelled code can raise. What \<^verbatim>\<open>str(e)\<close> prints for each is the
  business of the Python runtime and of the libraries, and is a parameter of the model
  (the field \<open>str_exn\<close> of the world below).
  \<^verbatim>\<open>requests.exceptions.JSONDecodeError\<close> is a \<^verbatim>\<open>RequestException\<close> (requests 2.27 and
  later), which \<open>is_RequestException\<close> records.
\<close>

datatype exn =
    KeyError string
  | AttributeError string string
  | TypeError
  | ValidationError string
  | RequestException string
  | JSONDecodeError

fun is_RequestException :: "exn \<Rightarrow> bool" where
  "is_RequestException (RequestException d) = True"
| "is_RequestException JSONDecodeError = True"
| "is_RequestException e = False"

definition bindE :: "exn + 'a \<Rightarrow> ('a \<Rightarrow> exn + 'b) \<Rightarrow> exn + 'b" where
  "bindE m f = (case m of Inl e \<Rightarrow> Inl e | Inr v \<Rightarrow> f v)"

fun mapE :: "('a \<Rightarrow> exn + 'b) \<Rightarrow> 'a list \<Rightarrow> exn + 'b list" where
  "mapE f [] = Inr []"
| "mapE f (x # xs) = bindE (f x) (\<lambda>y. bindE (mapE f xs) (\<lambda>ys. Inr (y # ys)))"

subsection \<open>Truthiness, type names, dictionary and sequence operations\<close>

fun truthy :: "json \<Rightarrow> bool" where
  "truthy JNull = False"
| "truthy (JBool b) = b"
| "truthy (JInt n) = (n \<noteq> 0)"
| "truthy (JStr s) = (s \<noteq> [])"
| "truthy (JArr xs) = (xs \<noteq> [])"
| "truthy (JObj kvs) = (kvs \<noteq> [])"

fun type_name :: "json \<Rightarrow> string" where
  "type_name JNull = ''NoneType''"
| "type_name (JBool b) = ''bool''"
| "type_name (JInt n) = ''int''"
| "type_name (JStr s) = ''str''"
| "type_name (JArr xs) = ''list''"
| "type_name (JObj kvs) = ''dict''"

text \<open>\<^verbatim>\<open>d.get(k, default)\<close>: only a dictionary has the method.\<close>

fun py_get :: "json \<Rightarrow> string \<Rightarrow> json \<Rightarrow> exn + json" where
  "py_get (JObj kvs) k d = (case map_of kvs k of Some v \<Rightarrow> Inr v | None \<Rightarrow> Inr d)"
| "py_get v k d = Inl (AttributeError (type_name v) ''get'')"

text \<open>\<^verbatim>\<open>d[k]\<close> with a string key.\<close>

fun py_item :: "json \<Rightarrow> string \<Rightarrow> exn + json" where
  "py_item (JObj kvs) k = (case map_of kvs k of Some v \<Rightarrow> Inr v | None \<Rightarrow> Inl (KeyError k))"
| "py_item v k = Inl TypeError"

text \<open>\<^verbatim>\<open>k in v\<close> for a string \<open>k\<close>: a key of a dictionary, an element of a list, a
  substring of a string.\<close>

fun py_in :: "string \<Rightarrow> json \<Rightarrow> exn + bool" where
  "py_in k (JObj kvs) = Inr (k \<in> set (map fst kvs))"
| "py_in k (JArr xs) = Inr (JStr k \<in> set xs)"
| "py_in k (JStr s) = Inr (sublist k s)"
| "py_in k v = Inl TypeError"

text \<open>Iteration (\<^verbatim>\<open>for x in v\<close>): a dictionary yields its keys, a string its characters.\<close>

fun py_iter :: "json \<Rightarrow> exn + json list" where
  "py_iter (JArr xs) = Inr xs"
| "py_iter (JObj kvs) = Inr (map (\<lambda>kv. JStr (fst kv)) kvs)"
| "py_iter (JStr s) = Inr (map (\<lambda>c. JStr [c]) s)"
| "py_iter v = Inl TypeError"

text \<open>\<^verbatim>\<open>v[:5]\<close>: the first five of a list or of a string; no other value can be sliced
  (a dictionary raises \<^verbatim>\<open>TypeError\<close> up to Python 3.11 and \<^verbatim>\<open>KeyError\<close> from 3.12 on; the
  model has \<^verbatim>\<open>TypeError\<close>).\<close>

fun py_take5 :: "json \<Rightarrow> exn + json" where
  "py_take5 (JArr xs) = Inr (JArr (take 5 xs))"
| "py_take5 (JStr s) = Inr (JStr (take 5 s))"
| "py_take5 v = Inl TypeError"

text \<open>An operand of integer arithmetic: \<^verbatim>\<open>bool\<close> is a subclass of \<^verbatim>\<open>int\<close>.\<close>

fun py_int :: "json \<Rightarrow> exn + int" where
  "py_int (JInt n) = Inr n"
| "py_int (JBool b) = Inr (if b then 1 else 0)"
| "py_int v = Inl TypeError"

section \<open>The world: the store, the clock and the music provider\<close>

text \<open>
  An HTTP request as \<^verbatim>\<open>requests.get/post/put/delete\<close> is given it: the verb is the
  function called, \<^verbatim>\<open>params\<close>, \<^verbatim>\<open>json\<close> and \<^verbatim>\<open>data\<close> are the keyword arguments
  (\<open>JNull\<close> for one that is not passed or is \<^verbatim>\<open>None\<close>).
\<close>

record http_request =
  verb :: string
  url :: string
  headers :: "(string \<times> string) list"
  params :: json
  json_data :: json
  form_data :: json

text \<open>The answer: a response with its status code and its content (empty, JSON, or bytes
  that are not JSON), or a transport failure, which \<^verbatim>\<open>requests\<close> raises as a
  \<^verbatim>\<open>RequestException\<close>.\<close>

datatype http_content = NoContent | JsonContent json | OtherContent

datatype http_outcome = Response int http_content | TransportFailure string

record credentials =
  access_token :: json
  refresh_token :: json
  expires_at :: int

text \<open>
  The state a handler runs in. The credential and default-playlist tables belong to
  \<^verbatim>\<open>db.py\<close>, which is not among the sources; they are keyed by the uid value. The clock
  is \<^verbatim>\<open>int(datetime.utcnow().timestamp())\<close>, taken as constant while one handler runs.
  \<open>sent\<close> lists the HTTP requests issued so far, oldest first, and \<open>provider\<close> gives the
  outcome of a request after the requests sent before it. \<open>client_basic\<close> is the base64
  text of \<^verbatim>\<open>SPOTIFY_CLIENT_ID:SPOTIFY_CLIENT_SECRET\<close>.

  The rest is what the Python runtime and the libraries decide, and nothing is assumed
  of it: \<open>str_exn\<close> is \<^verbatim>\<open>str(e)\<close>; \<open>unicode_lower\<close> and \<open>unicode_upper\<close> are \<^verbatim>\<open>str.lower\<close>
  and \<^verbatim>\<open>str.upper\<close> on text that is not all ASCII (Unicode's tables: the Kelvin sign
  lowers to \<^verbatim>\<open>k\<close>); \<open>convert_str\<close>, \<open>convert_int\<close> and \<open>convert_bool\<close> are what pydantic's
  validation makes of a value that is not of the declared type (the converted value, or
  nothing when it refuses; this differs between pydantic's versions and modes).
\<close>

record world =
  tokens_db :: "json \<Rightarrow> credentials option"
  default_playlist_db :: "json \<Rightarrow> (string \<times> string) option"
  clock :: int
  sent :: "http_request list"
  provider :: "http_request list \<Rightarrow> http_request \<Rightarrow> http_outcome"
  client_basic :: string
  str_exn :: "exn \<Rightarrow> string"
  unicode_lower :: "string \<Rightarrow> string"
  unicode_upper :: "string \<Rightarrow> string"
  convert_str :: "json \<Rightarrow> string option"
  convert_int :: "json \<Rightarrow> int option"
  convert_bool :: "json \<Rightarrow> bool option"

definition requests_send :: "world \<Rightarrow> http_request \<Rightarrow> http_outcome \<times> world" where
  "requests_send w req = (provider w (sent w) req, w\<lparr>sent := sent w @ [req]\<rparr>)"

text \<open>\<^verbatim>\<open>response.json()\<close>.\<close>

fun response_json :: "http_content \<Rightarrow> exn + json" where
  "response_json (JsonContent j) = Inr j"
| "response_json c = Inl JSONDecodeError"

subsection \<open>The store (db.py)\<close>

definition get_spotify_tokens :: "world \<Rightarrow> json \<Rightarrow> credentials option" where
  \<comment> \<open>Modelled from the spec: db.py is missing. \<^verbatim>\<open>getTokens(userId) -> record | absent\<close>.\<close>
  "get_spotify_tokens w u = tokens_db w u"

definition is_token_expired :: "world \<Rightarrow> json \<Rightarrow> bool" where
  \<comment> \<open>Modelled from the spec: db.py is missing. True if no record exists, or if current
     time \<open>\<ge>\<close> stored expiry.\<close>
  "is_token_expired w u =
     (case tokens_db w u of None \<Rightarrow> True | Some c \<Rightarrow> expires_at c \<le> clock w)"

definition store_spotify_tokens :: "world \<Rightarrow> json \<Rightarrow> json \<Rightarrow> json \<Rightarrow> int \<Rightarrow> world" where
  \<comment> \<open>Modelled from the spec: db.py is missing. Upsert, replacing any prior record for
     the user.\<close>
  "store_spotify_tokens w u a r e =
     w\<lparr>tokens_db := (tokens_db w)(u \<mapsto> \<lparr>access_token = a, refresh_token = r, expires_at = e\<rparr>)\<rparr>"

definition get_default_playlist :: "world \<Rightarrow> json \<Rightarrow> (string \<times> string) option" where
  \<comment> \<open>Modelled from the spec: db.py is missing.
     \<^verbatim>\<open>getDefaultPlaylist(userId) -> {id, name} | absent\<close>.\<close>
  "get_default_playlist w u = default_playlist_db w u"

section \<open>Text: case, numbers and repr\<close>


text \<open>
  \<^verbatim>\<open>str.lower\<close> and \<^verbatim>\<open>str.upper\<close>. On text that is all ASCII they map the 26 letters and
  keep every other character; on any other text they are the runtime's
  (\<open>unicode_lower\<close>, \<open>unicode_upper\<close>).
\<close>

definition is_ascii :: "string \<Rightarrow> bool" where
  "is_ascii s = list_all (\<lambda>c. \<not> digit7 c) s"

definition lower_char :: "char \<Rightarrow> char" where
  "lower_char c =
     (case map_of (zip ''ABCDEFGHIJKLMNOPQRSTUVWXYZ'' ''abcdefghijklmnopqrstuvwxyz'') c of
        None \<Rightarrow> c | Some l \<Rightarrow> l)"

definition upper_char :: "char \<Rightarrow> char" where
  "upper_char c =
     (case map_of (zip ''abcdefghijklmnopqrstuvwxyz'' ''ABCDEFGHIJKLMNOPQRSTUVWXYZ'') c of
        None \<Rightarrow> c | Some u \<Rightarrow> u)"

definition lower :: "world \<Rightarrow> string \<Rightarrow> string" where
  "lower w s = (if is_ascii s then map lower_char s else unicode_lower w s)"

definition upper :: "world \<Rightarrow> string \<Rightarrow> string" where
  "upper w s = (if is_ascii s then map upper_char s else unicode_upper w s)"

text \<open>\<^verbatim>\<open>v.lower()\<close> on a value: only a string has the method.\<close>

fun py_lower :: "world \<Rightarrow> json \<Rightarrow> exn + string" where
  "py_lower w (JStr s) = Inr (lower w s)"
| "py_lower w v = Inl (AttributeError (type_name v) ''lower'')"

fun join :: "string \<Rightarrow> string list \<Rightarrow> string" where
  "join sep [] = []"
| "join sep [x] = x"
| "join sep (x # y # ys) = x @ sep @ join sep (y # ys)"

text \<open>\<^verbatim>\<open>sep.join(v)\<close> on a value: every element must be a string.\<close>

fun py_str_item :: "json \<Rightarrow> exn + string" where
  "py_str_item (JStr s) = Inr s"
| "py_str_item v = Inl TypeError"

definition py_join :: "string \<Rightarrow> json \<Rightarrow> exn + string" where
  "py_join sep v = bindE (py_iter v) (\<lambda>xs. bindE (mapE py_str_item xs) (\<lambda>ss. Inr (join sep ss)))"

definition digit_char :: "nat \<Rightarrow> char" where
  "digit_char d = ''0123456789abcdef'' ! d"

fun digits :: "nat \<Rightarrow> string" where
  "digits n = (if n < 10 then [digit_char n] else digits (n div 10) @ [digit_char (n mod 10)])"

declare digits.simps [simp del]

text \<open>\<^verbatim>\<open>str(n)\<close> of an integer.\<close>

definition str_int :: "int \<Rightarrow> string" where
  "str_int n = (if n < 0 then ''-'' @ digits (nat (- n)) else digits (nat n))"

text \<open>The format \<^verbatim>\<open>{n:02d}\<close>: the sign counts in the width of two.\<close>

definition format_02d :: "int \<Rightarrow> string" where
  "format_02d n = (if 0 \<le> n \<and> n < 10 then ''0'' @ str_int n else str_int n)"

text \<open>\<^verbatim>\<open>repr\<close> of a string: single quotes unless the text holds one and no double quote;
  the quote, the backslash and the control characters are escaped.\<close>

definition repr_char :: "char \<Rightarrow> char \<Rightarrow> string" where
  "repr_char q c =
     (if c = q \<or> c = CHR 0x5C then [CHR 0x5C, c]
      else if c = CHR 0x09 then [CHR 0x5C, CHR ''t'']
      else if c = CHR 0x0A then [CHR 0x5C, CHR ''n'']
      else if c = CHR 0x0D then [CHR 0x5C, CHR ''r'']
      else if (of_char c :: nat) < 32 \<or> (of_char c :: nat) = 127
        then [CHR 0x5C, CHR ''x'', digit_char (of_char c div 16), digit_char (of_char c mod 16)]
      else [c])"

definition repr_str :: "string \<Rightarrow> string" where
  "repr_str s =
     (let q = (if CHR 0x27 \<in> set s \<and> CHR 0x22 \<notin> set s then CHR 0x22 else CHR 0x27)
      in [q] @ concat (map (repr_char q) s) @ [q])"

fun py_repr :: "json \<Rightarrow> string" where
  "py_repr JNull = ''None''"
| "py_repr (JBool b) = (if b then ''True'' else ''False'')"
| "py_repr (JInt n) = str_int n"
| "py_repr (JStr s) = repr_str s"
| "py_repr (JArr xs) = ''['' @ join '', '' (map py_repr xs) @ '']''"
| "py_repr (JObj kvs) =
     ''{'' @ join '', '' (map (\<lambda>kv. repr_str (fst kv) @ '': '' @ py_repr (snd kv)) kvs) @ ''}''"

text \<open>\<^verbatim>\<open>str(v)\<close>, as an f-string renders a value.\<close>

fun py_str :: "json \<Rightarrow> string" where
  "py_str (JStr s) = s"
| "py_str v = py_repr v"

subsection \<open>Durations\<close>

text \<open>
  The expression
  \<^verbatim>\<open>f"{ms // 60000}:{(ms % 60000) // 1000:02d}"\<close>
  of \<^verbatim>\<open>tool_search_songs\<close> and \<^verbatim>\<open>tool_get_now_playing\<close>. Python's \<^verbatim>\<open>//\<close> and \<^verbatim>\<open>%\<close> round
  towards minus infinity, as \<open>div\<close> and \<open>mod\<close> on \<open>int\<close> do.
\<close>

definition format_duration :: "int \<Rightarrow> string" where
  "format_duration ms = str_int (ms div 60000) @ '':'' @ format_02d ((ms mod 60000) div 1000)"

section \<open>The data models (models.py)\<close>

text \<open>
  A pydantic model is built from keyword arguments; the model lists them as the call
  site writes them. A field without a default is required; a field the call leaves out
  takes its default. A value of the declared type is taken as it is; what becomes of a
  value of another type is pydantic's conversion (\<open>convert_str\<close>, \<open>convert_int\<close>,
  \<open>convert_bool\<close> of the world), which either yields a value of the declared type or
  refuses. Any refused or missing field raises \<^verbatim>\<open>ValidationError\<close> for the model.
\<close>

type_synonym kwargs = "(string \<times> json) list"

fun v_str :: "world \<Rightarrow> json \<Rightarrow> string option" where
  "v_str w (JStr s) = Some s"
| "v_str w v = convert_str w v"

fun v_int :: "world \<Rightarrow> json \<Rightarrow> int option" where
  "v_int w (JInt n) = Some n"
| "v_int w v = convert_int w v"

fun v_bool :: "world \<Rightarrow> json \<Rightarrow> bool option" where
  "v_bool w (JBool b) = Some b"
| "v_bool w v = convert_bool w v"

text \<open>\<^verbatim>\<open>Optional[str]\<close>: \<^verbatim>\<open>None\<close>, or a string.\<close>

fun v_opt_str :: "world \<Rightarrow> json \<Rightarrow> string option option" where
  "v_opt_str w JNull = Some None"
| "v_opt_str w v = (case v_str w v of Some s \<Rightarrow> Some (Some s) | None \<Rightarrow> None)"

text \<open>\<^verbatim>\<open>List[str]\<close>: a list, each element a string.\<close>

fun v_str_list :: "world \<Rightarrow> json \<Rightarrow> string list option" where
  "v_str_list w (JArr xs) =
     (if list_all (\<lambda>x. v_str w x \<noteq> None) xs then Some (map (\<lambda>x. the (v_str w x)) xs) else None)"
| "v_str_list w v = None"

definition required :: "kwargs \<Rightarrow> string \<Rightarrow> (json \<Rightarrow> 'a option) \<Rightarrow> 'a option" where
  "required kw k v = (case map_of kw k of None \<Rightarrow> None | Some x \<Rightarrow> v x)"

definition optional :: "kwargs \<Rightarrow> string \<Rightarrow> (json \<Rightarrow> 'a option) \<Rightarrow> 'a \<Rightarrow> 'a option" where
  "optional kw k v d = (case map_of kw k of None \<Rightarrow> Some d | Some x \<Rightarrow> v x)"

record SpotifyTrack =
  track_id :: string
  track_name :: string
  artists :: "string list"
  album :: string
  duration_ms :: int
  track_uri :: string
  track_external_url :: "string option"
  preview_url :: "string option"

definition SpotifyTrack_init :: "world \<Rightarrow> kwargs \<Rightarrow> exn + SpotifyTrack" where
  "SpotifyTrack_init w kw =
     (case (required kw ''id'' (v_str w), required kw ''name'' (v_str w),
            required kw ''artists'' (v_str_list w), required kw ''album'' (v_str w),
            required kw ''duration_ms'' (v_int w), required kw ''uri'' (v_str w),
            optional kw ''external_url'' (v_opt_str w) None,
            optional kw ''preview_url'' (v_opt_str w) None) of
        (Some i, Some n, Some ar, Some al, Some d, Some u, Some e, Some p) \<Rightarrow>
          Inr \<lparr>track_id = i, track_name = n, artists = ar, album = al, duration_ms = d,
               track_uri = u, track_external_url = e, preview_url = p\<rparr>
      | _ \<Rightarrow> Inl (ValidationError ''SpotifyTrack''))"

text \<open>\<^verbatim>\<open>SpotifyPlaylist\<close>: \<^verbatim>\<open>canEdit: bool\<close> has no default, so it is required.\<close>

record SpotifyPlaylist =
  playlist_id :: string
  playlist_name :: string
  playlist_description :: "string option"
  owner :: string
  tracks_total :: int
  playlist_public :: bool
  playlist_uri :: string
  canEdit :: bool
  playlist_external_url :: "string option"

definition SpotifyPlaylist_init :: "world \<Rightarrow> kwargs \<Rightarrow> exn + SpotifyPlaylist" where
  "SpotifyPlaylist_init w kw =
     (case (required kw ''id'' (v_str w), required kw ''name'' (v_str w),
            optional kw ''description'' (v_opt_str w) (Some ''''),
            required kw ''owner'' (v_str w), required kw ''tracks_total'' (v_int w),
            required kw ''public'' (v_bool w), required kw ''uri'' (v_str w),
            required kw ''canEdit'' (v_bool w),
            optional kw ''external_url'' (v_opt_str w) None) of
        (Some i, Some n, Some d, Some ow, Some t, Some p, Some u, Some c, Some e) \<Rightarrow>
          Inr \<lparr>playlist_id = i, playlist_name = n, playlist_description = d, owner = ow,
               tracks_total = t, playlist_public = p, playlist_uri = u, canEdit = c,
               playlist_external_url = e\<rparr>
      | _ \<Rightarrow> Inl (ValidationError ''SpotifyPlaylist''))"

text \<open>\<^verbatim>\<open>CreatePlaylistRequest(ChatToolRequest)\<close>: the base fields \<^verbatim>\<open>uid\<close>, \<^verbatim>\<open>app_id\<close>,
  \<^verbatim>\<open>tool_name\<close>, then \<^verbatim>\<open>name: str\<close>, \<^verbatim>\<open>description: Optional[str] = ""\<close> and
  \<^verbatim>\<open>public: bool = False\<close>.\<close>

record CreatePlaylistRequest =
  uid :: string
  app_id :: string
  tool_name :: string
  name :: string
  description :: "string option"
  public :: bool

definition CreatePlaylistRequest_init :: "world \<Rightarrow> kwargs \<Rightarrow> exn + CreatePlaylistRequest" where
  "CreatePlaylistRequest_init w kw =
     (case (required kw ''uid'' (v_str w), required kw ''app_id'' (v_str w),
            required kw ''tool_name'' (v_str w), required kw ''name'' (v_str w),
            optional kw ''description'' (v_opt_str w) (Some ''''),
            optional kw ''public'' (v_bool w) False) of
        (Some u, Some a, Some t, Some n, Some d, Some p) \<Rightarrow>
          Inr \<lparr>uid = u, app_id = a, tool_name = t, name = n, description = d, public = p\<rparr>
      | _ \<Rightarrow> Inl (ValidationError ''CreatePlaylistRequest''))"

text \<open>\<^verbatim>\<open>ChatToolResponse\<close>: both fields optional, default \<^verbatim>\<open>None\<close>. The handlers build it
  with one keyword, whose value is a string.\<close>

record ChatToolResponse =
  result :: "string option"
  error :: "string option"

definition result_response :: "string \<Rightarrow> ChatToolResponse" where
  "result_response s = \<lparr>result = Some s, error = None\<rparr>"

definition error_response :: "string \<Rightarrow> ChatToolResponse" where
  "error_response s = \<lparr>result = None, error = Some s\<rparr>"

section \<open>The API client (main.py, helper functions)\<close>

definition SPOTIFY_TOKEN_URL :: string where
  "SPOTIFY_TOKEN_URL = ''https://accounts.spotify.com/api/token''"

definition SPOTIFY_API_BASE :: string where
  "SPOTIFY_API_BASE = ''https://api.spotify.com/v1''"

definition get_auth_header :: "json \<Rightarrow> (string \<times> string) list" where
  "get_auth_header token = [(''Authorization'', ''Bearer '' @ py_str token)]"

text \<open>\<^verbatim>\<open>refresh_access_token\<close>: the call of \<^verbatim>\<open>requests.post\<close> stands in no \<^verbatim>\<open>try\<close>.\<close>

definition refresh_access_token :: "world \<Rightarrow> json \<Rightarrow> (exn + json) \<times> world" where
  "refresh_access_token w rt =
     (case requests_send w
             \<lparr>verb = ''POST'', url = SPOTIFY_TOKEN_URL,
              headers = [(''Authorization'', ''Basic '' @ client_basic w),
                         (''Content-Type'', ''application/x-www-form-urlencoded'')],
              params = JNull, json_data = JNull,
              form_data = JObj [(''grant_type'', JStr ''refresh_token''), (''refresh_token'', rt)]\<rparr> of
        (TransportFailure d, w') \<Rightarrow> (Inl (RequestException d), w')
      | (Response status content, w') \<Rightarrow>
          if status = 200 then (response_json content, w') else (Inr JNull, w'))"

text \<open>The part of \<^verbatim>\<open>get_valid_access_token\<close> that follows a refresh that answered
  something truthy: the new expiry, the new record, the new token.\<close>

definition store_refreshed :: "world \<Rightarrow> json \<Rightarrow> credentials \<Rightarrow> json \<Rightarrow> (exn + json) \<times> world" where
  "store_refreshed w u tokens new_tokens =
     (case bindE (py_get new_tokens ''expires_in'' (JInt 3600)) (\<lambda>ei.
           bindE (py_int ei) (\<lambda>n.
           bindE (py_item new_tokens ''access_token'') (\<lambda>a.
           bindE (py_get new_tokens ''refresh_token'' (refresh_token tokens)) (\<lambda>r.
           Inr (a, r, clock w + n))))) of
        Inl e \<Rightarrow> (Inl e, w)
      | Inr (a, r, e) \<Rightarrow> (Inr a, store_spotify_tokens w u a r e))"

definition get_valid_access_token :: "world \<Rightarrow> json \<Rightarrow> (exn + json) \<times> world" where
  "get_valid_access_token w u =
     (case get_spotify_tokens w u of
        None \<Rightarrow> (Inr JNull, w)
      | Some tokens \<Rightarrow>
          if is_token_expired w u then
            (case refresh_access_token w (refresh_token tokens) of
               (Inl e, w') \<Rightarrow> (Inl e, w')
             | (Inr new_tokens, w') \<Rightarrow>
                 if truthy new_tokens then store_refreshed w' u tokens new_tokens
                 else (Inr JNull, w'))
          else (Inr (access_token tokens), w))"

text \<open>What \<^verbatim>\<open>spotify_api_request\<close> makes of the response, inside its \<^verbatim>\<open>try\<close>.\<close>

definition success_marker :: json where
  "success_marker = JObj [(''success'', JBool True)]"

definition error_shape :: "json \<Rightarrow> json" where
  "error_shape msg = JObj [(''error'', msg)]"

fun read_response :: "http_outcome \<Rightarrow> exn + json" where
  "read_response (TransportFailure d) = Inl (RequestException d)"
| "read_response (Response status content) =
     (if status = 204 then Inr success_marker
      else if status \<ge> 400 then
        bindE (if content \<noteq> NoContent then response_json content else Inr (JObj [])) (\<lambda>error_data.
        bindE (py_get error_data ''error'' (JObj [])) (\<lambda>err.
        bindE (py_get err ''message'' (JStr (''API error: '' @ str_int status))) (\<lambda>msg.
        Inr (error_shape msg))))
      else if content \<noteq> NoContent then response_json content else Inr success_marker)"

text \<open>\<^verbatim>\<open>except requests.RequestException as e\<close>.\<close>

definition except_RequestException :: "world \<Rightarrow> exn + json \<Rightarrow> exn + json" where
  "except_RequestException w r =
     (case r of
        Inr v \<Rightarrow> Inr v
      | Inl e \<Rightarrow> if is_RequestException e
                 then Inr (error_shape (JStr (''Request failed: '' @ str_exn w e)))
                 else Inl e)"

text \<open>The request each verb sends: \<^verbatim>\<open>get\<close> and \<^verbatim>\<open>delete\<close> pass no \<^verbatim>\<open>json\<close>.\<close>

definition api_call :: "string \<Rightarrow> string \<Rightarrow> json \<Rightarrow> json \<Rightarrow> json \<Rightarrow> http_request" where
  "api_call v endpoint token ps js =
     \<lparr>verb = v, url = SPOTIFY_API_BASE @ endpoint, headers = get_auth_header token,
      params = ps, json_data = (if v = ''POST'' \<or> v = ''PUT'' then js else JNull),
      form_data = JNull\<rparr>"

definition spotify_api_request ::
    "world \<Rightarrow> json \<Rightarrow> string \<Rightarrow> string \<Rightarrow> json \<Rightarrow> json \<Rightarrow> (exn + json) \<times> world" where
  "spotify_api_request w u method endpoint ps js =
     (case get_valid_access_token w u of
        (Inl e, w') \<Rightarrow> (Inl e, w')
      | (Inr token, w') \<Rightarrow>
          if \<not> truthy token then (Inr (error_shape (JStr ''User not authenticated with Spotify'')), w')
          else if upper w method \<in> set [''GET'', ''POST'', ''PUT'', ''DELETE''] then
            (case requests_send w' (api_call (upper w method) endpoint token ps js) of
               (outcome, w'') \<Rightarrow> (except_RequestException w'' (read_response outcome), w''))
          else (Inr (error_shape (JStr (''Unsupported HTTP method: '' @ method))), w'))"

subsection \<open>Search and playlists\<close>

text \<open>The keyword arguments of \<^verbatim>\<open>SpotifyTrack(...)\<close> in \<^verbatim>\<open>search_tracks\<close>, evaluated left to
  right from one item of the provider's answer.\<close>

definition track_kwargs :: "json \<Rightarrow> exn + kwargs" where
  "track_kwargs item =
     bindE (py_item item ''id'') (\<lambda>i.
     bindE (py_item item ''name'') (\<lambda>n.
     bindE (py_item item ''artists'') (\<lambda>ars.
     bindE (py_iter ars) (\<lambda>as.
     bindE (mapE (\<lambda>a. py_item a ''name'') as) (\<lambda>names.
     bindE (py_item item ''album'') (\<lambda>al.
     bindE (py_item al ''name'') (\<lambda>aln.
     bindE (py_item item ''duration_ms'') (\<lambda>d.
     bindE (py_item item ''uri'') (\<lambda>u.
     bindE (py_get item ''external_urls'' (JObj [])) (\<lambda>eu.
     bindE (py_get eu ''spotify'' JNull) (\<lambda>ext.
     bindE (py_get item ''preview_url'' JNull) (\<lambda>pv.
     Inr [(''id'', i), (''name'', n), (''artists'', JArr names), (''album'', aln),
          (''duration_ms'', d), (''uri'', u), (''external_url'', ext),
          (''preview_url'', pv)]))))))))))))"

definition track_of_item :: "world \<Rightarrow> json \<Rightarrow> exn + SpotifyTrack" where
  "track_of_item w item = bindE (track_kwargs item) (SpotifyTrack_init w)"

definition search_tracks :: "world \<Rightarrow> json \<Rightarrow> json \<Rightarrow> json \<Rightarrow> (exn + SpotifyTrack list) \<times> world" where
  "search_tracks w u query limit =
     (case spotify_api_request w u ''GET'' ''/search''
             (JObj [(''q'', query), (''type'', JStr ''track''), (''limit'', limit)]) JNull of
        (Inl e, w') \<Rightarrow> (Inl e, w')
      | (Inr res, w') \<Rightarrow>
          (bindE (py_in ''error'' res) (\<lambda>failed.
             if failed then Inr []
             else bindE (py_get res ''tracks'' (JObj [])) (\<lambda>tr.
                  bindE (py_get tr ''items'' (JArr [])) (\<lambda>items.
                  bindE (py_iter items) (\<lambda>xs. mapE (track_of_item w) xs)))), w'))"

text \<open>The keyword arguments of \<^verbatim>\<open>SpotifyPlaylist(...)\<close> in \<^verbatim>\<open>get_user_playlists\<close>: the call
  passes \<^verbatim>\<open>id\<close>, \<^verbatim>\<open>name\<close>, \<^verbatim>\<open>description\<close>, \<^verbatim>\<open>owner\<close>, \<^verbatim>\<open>tracks_total\<close>, \<^verbatim>\<open>public\<close>,
  \<^verbatim>\<open>uri\<close> and \<^verbatim>\<open>external_url\<close>.\<close>

definition playlist_kwargs :: "json \<Rightarrow> exn + kwargs" where
  "playlist_kwargs item =
     bindE (py_item item ''id'') (\<lambda>i.
     bindE (py_item item ''name'') (\<lambda>n.
     bindE (py_get item ''description'' (JStr '''')) (\<lambda>d.
     bindE (py_item item ''owner'') (\<lambda>ow.
     bindE (py_item ow ''display_name'') (\<lambda>own.
     bindE (py_item item ''tracks'') (\<lambda>tr.
     bindE (py_item tr ''total'') (\<lambda>tot.
     bindE (py_get item ''public'' (JBool False)) (\<lambda>p.
     bindE (py_item item ''uri'') (\<lambda>u.
     bindE (py_get item ''external_urls'' (JObj [])) (\<lambda>eu.
     bindE (py_get eu ''spotify'' JNull) (\<lambda>ext.
     Inr [(''id'', i), (''name'', n), (''description'', d), (''owner'', own),
          (''tracks_total'', tot), (''public'', p), (''uri'', u),
          (''external_url'', ext)])))))))))))"

definition playlist_of_item :: "world \<Rightarrow> json \<Rightarrow> exn + SpotifyPlaylist" where
  "playlist_of_item w item = bindE (playlist_kwargs item) (SpotifyPlaylist_init w)"

definition get_user_playlists :: "world \<Rightarrow> json \<Rightarrow> json \<Rightarrow> (exn + SpotifyPlaylist list) \<times> world" where
  "get_user_playlists w u limit =
     (case spotify_api_request w u ''GET'' ''/me/playlists'' (JObj [(''limit'', limit)]) JNull of
        (Inl e, w') \<Rightarrow> (Inl e, w')
      | (Inr res, w') \<Rightarrow>
          (bindE (py_in ''error'' res) (\<lambda>failed.
             if failed then Inr []
             else bindE (py_get res ''items'' (JArr [])) (\<lambda>items.
                  bindE (py_iter items) (\<lambda>xs. mapE (playlist_of_item w) xs))), w'))"

text \<open>The two loops of \<^verbatim>\<open>find_playlist_by_name\<close> over the playlists fetched: the first
  playlist whose lowered name is the lowered query, else the first whose lowered name
  contains it.\<close>

definition match_playlist :: "world \<Rightarrow> SpotifyPlaylist list \<Rightarrow> string \<Rightarrow> SpotifyPlaylist option" where
  "match_playlist w playlists name_lower =
     (case find (\<lambda>p. lower w (playlist_name p) = name_lower) playlists of
        Some p \<Rightarrow> Some p
      | None \<Rightarrow> find (\<lambda>p. sublist name_lower (lower w (playlist_name p))) playlists)"

definition find_playlist_by_name :: "world \<Rightarrow> json \<Rightarrow> json \<Rightarrow> (exn + SpotifyPlaylist option) \<times> world" where
  "find_playlist_by_name w u nm =
     (case get_user_playlists w u (JInt 50) of
        (Inl e, w') \<Rightarrow> (Inl e, w')
      | (Inr playlists, w') \<Rightarrow>
          (bindE (py_lower w nm) (\<lambda>name_lower. Inr (match_playlist w playlists name_lower)), w'))"

section \<open>The chat tools (main.py, chat tool endpoints)\<close>

text \<open>
  Every handler is \<^verbatim>\<open>try: ... except Exception as e: return ChatToolResponse(error=f"<prefix>{str(e)}")\<close>.
  The body of the \<^verbatim>\<open>try\<close> is a function that returns the response or the exception
  raised, with the world it leaves; \<open>endpoint\<close> is the \<^verbatim>\<open>except\<close> clause. The input is the
  parsed JSON body, the value of \<^verbatim>\<open>await request.json()\<close>; a request whose body is not JSON
  (that call raises, inside the \<^verbatim>\<open>try\<close>) is outside the model. The \<^verbatim>\<open>print\<close> calls are
  left out.
\<close>

definition endpoint :: "string \<Rightarrow> (exn + ChatToolResponse) \<times> world \<Rightarrow> ChatToolResponse \<times> world" where
  "endpoint pre r =
     (case r of
        (Inr resp, w) \<Rightarrow> (resp, w)
      | (Inl e, w) \<Rightarrow> (error_response (pre @ str_exn w e), w))"

definition uid_required :: string where
  "uid_required = ''User ID is required''"

definition connect_first :: string where
  "connect_first = ''Please connect your Spotify account first in the app settings.''"

text \<open>The emoji of the messages, as their UTF-8 bytes.\<close>

definition emoji_notes :: string where
  "emoji_notes = [CHR 0xF0, CHR 0x9F, CHR 0x8E, CHR 0xB5]"

definition emoji_check :: string where
  "emoji_check = [CHR 0xE2, CHR 0x9C, CHR 0x85]"

definition emoji_globe :: string where
  "emoji_globe = [CHR 0xF0, CHR 0x9F, CHR 0x8C, CHR 0x90]"

definition emoji_lock :: string where
  "emoji_lock = [CHR 0xF0, CHR 0x9F, CHR 0x94, CHR 0x92]"

definition emoji_clipboard :: string where
  "emoji_clipboard = [CHR 0xF0, CHR 0x9F, CHR 0x93, CHR 0x8B]"

definition emoji_muted :: string where
  "emoji_muted = [CHR 0xF0, CHR 0x9F, CHR 0x94, CHR 0x87]"

definition emoji_play :: string where
  "emoji_play = [CHR 0xE2, CHR 0x96, CHR 0xB6, CHR 0xEF, CHR 0xB8, CHR 0x8F]"

definition emoji_pause :: string where
  "emoji_pause = [CHR 0xE2, CHR 0x8F, CHR 0xB8, CHR 0xEF, CHR 0xB8, CHR 0x8F]"

definition emoji_next :: string where
  "emoji_next = [CHR 0xE2, CHR 0x8F, CHR 0xAD, CHR 0xEF, CHR 0xB8, CHR 0x8F]"

definition emoji_previous :: string where
  "emoji_previous = [CHR 0xE2, CHR 0x8F, CHR 0xAE, CHR 0xEF, CHR 0xB8, CHR 0x8F]"

definition emoji_headphones :: string where
  "emoji_headphones = [CHR 0xF0, CHR 0x9F, CHR 0x8E, CHR 0xA7]"

definition newline :: string where
  "newline = [CHR 0x0A]"

text \<open>A call of the API client followed by code that touches the world no more.\<close>

definition api_then :: "(exn + 'a) \<times> world \<Rightarrow> ('a \<Rightarrow> exn + 'b) \<Rightarrow> (exn + 'b) \<times> world" where
  "api_then r f = (case r of (Inl e, w) \<Rightarrow> (Inl e, w) | (Inr v, w) \<Rightarrow> (f v, w))"

text \<open>\<^verbatim>\<open>if "error" in result: return ChatToolResponse(error=f"<prefix>{result['error']}")\<close>,
  else the rest.\<close>

definition unless_error :: "string \<Rightarrow> json \<Rightarrow> (exn + ChatToolResponse) \<Rightarrow> exn + ChatToolResponse" where
  "unless_error pre res rest =
     bindE (py_in ''error'' res) (\<lambda>failed.
       if failed then bindE (py_item res ''error'') (\<lambda>m. Inr (error_response (pre @ py_str m)))
       else rest)"

subsection \<open>search_songs\<close>

definition song_line :: "nat \<times> SpotifyTrack \<Rightarrow> string" where
  "song_line it =
     str_int (int (fst it)) @ ''. **'' @ track_name (snd it) @ ''** by '' @
     join '', '' (artists (snd it)) @ '' ('' @ format_duration (duration_ms (snd it)) @
     '') - Album: '' @ album (snd it)"

definition search_songs_result :: "json \<Rightarrow> SpotifyTrack list \<Rightarrow> ChatToolResponse" where
  "search_songs_result query tracks =
     (if tracks = [] then result_response (''No songs found for '' @ [CHR 0x27] @ py_str query @ [CHR 0x27])
      else result_response
             (emoji_notes @ '' Found '' @ str_int (int (length tracks)) @ '' songs:'' @
              newline @ newline @ join newline (map song_line (enumerate 1 tracks))))"

definition search_songs_try :: "world \<Rightarrow> json \<Rightarrow> (exn + ChatToolResponse) \<times> world" where
  "search_songs_try w body =
     (case bindE (py_get body ''uid'' JNull) (\<lambda>u.
           bindE (py_get body ''query'' (JStr '''')) (\<lambda>query.
           bindE (py_get body ''limit'' (JInt 5)) (\<lambda>limit. Inr (u, query, limit)))) of
        Inl e \<Rightarrow> (Inl e, w)
      | Inr (u, query, limit) \<Rightarrow>
          if \<not> truthy u then (Inr (error_response uid_required), w)
          else if \<not> truthy query then (Inr (error_response ''Search query is required''), w)
          else if get_spotify_tokens w u = None then (Inr (error_response connect_first), w)
          else api_then (search_tracks w u query limit)
                 (\<lambda>tracks. Inr (search_songs_result query tracks)))"

definition tool_search_songs :: "world \<Rightarrow> json \<Rightarrow> ChatToolResponse \<times> world" where
  "tool_search_songs w body = endpoint ''Search failed: '' (search_songs_try w body)"

subsection \<open>add_to_playlist\<close>

text \<open>\<^verbatim>\<open>search_query = song_name\<close>, or \<^verbatim>\<open>f"{song_name} artist:{artist_name}"\<close> when an artist
  is given.\<close>

definition search_query :: "json \<Rightarrow> json \<Rightarrow> json" where
  "search_query song_name artist_name =
     (if truthy artist_name then JStr (py_str song_name @ '' artist:'' @ py_str artist_name)
      else song_name)"

text \<open>"Determine which playlist to use": the target, or the response returned early. Both
  calls of \<^verbatim>\<open>SpotifyPlaylist(...)\<close> pass \<^verbatim>\<open>id\<close>, \<^verbatim>\<open>name\<close>, \<^verbatim>\<open>owner\<close>, \<^verbatim>\<open>tracks_total\<close>,
  \<^verbatim>\<open>public\<close> and \<^verbatim>\<open>uri\<close>.\<close>

definition no_playlist :: string where
  "no_playlist = ''No playlist specified and no default playlist set. Please specify a playlist name or set a default in app settings.''"

definition target_playlist ::
    "world \<Rightarrow> json \<Rightarrow> json \<Rightarrow> json \<Rightarrow> (exn + ChatToolResponse + SpotifyPlaylist) \<times> world" where
  "target_playlist w u pl_id pl_name =
     (if truthy pl_id then
        (bindE (SpotifyPlaylist_init w
                  [(''id'', pl_id),
                   (''name'', if truthy pl_name then pl_name else JStr ''Unknown''),
                   (''owner'', JStr ''''), (''tracks_total'', JInt 0), (''public'', JBool False),
                   (''uri'', JStr (''spotify:playlist:'' @ py_str pl_id))])
               (\<lambda>p. Inr (Inr p)), w)
      else if truthy pl_name then
        api_then (find_playlist_by_name w u pl_name)
          (\<lambda>found. case found of
               None \<Rightarrow> Inr (Inl (error_response (''Could not find playlist: '' @ py_str pl_name)))
             | Some p \<Rightarrow> Inr (Inr p))
      else
        (case get_default_playlist w u of
           Some d \<Rightarrow>
             (bindE (SpotifyPlaylist_init w
                       [(''id'', JStr (fst d)), (''name'', JStr (snd d)),
                        (''owner'', JStr ''''), (''tracks_total'', JInt 0),
                        (''public'', JBool False),
                        (''uri'', JStr (''spotify:playlist:'' @ fst d))])
                    (\<lambda>p. Inr (Inr p)), w)
         | None \<Rightarrow> (Inr (Inl (error_response no_playlist)), w)))"

text \<open>"Add track to playlist".\<close>

definition add_track :: "world \<Rightarrow> json \<Rightarrow> SpotifyTrack \<Rightarrow> SpotifyPlaylist \<Rightarrow> (exn + ChatToolResponse) \<times> world" where
  "add_track w u track target =
     api_then (spotify_api_request w u ''POST'' (''/playlists/'' @ playlist_id target @ ''/tracks'')
                 JNull (JObj [(''uris'', JArr [JStr (track_uri track)])]))
       (\<lambda>res. unless_error ''Failed to add song: '' res
          (Inr (result_response
                  (emoji_check @ '' Added **'' @ track_name track @ ''** by '' @
                   join '', '' (artists track) @ '' to playlist **'' @ playlist_name target @
                   ''**!''))))"

definition add_to_playlist_try :: "world \<Rightarrow> json \<Rightarrow> (exn + ChatToolResponse) \<times> world" where
  "add_to_playlist_try w body =
     (case bindE (py_get body ''uid'' JNull) (\<lambda>u.
           bindE (py_get body ''song_name'' (JStr '''')) (\<lambda>song.
           bindE (py_get body ''artist_name'' (JStr '''')) (\<lambda>artist.
           bindE (py_get body ''playlist_name'' JNull) (\<lambda>pl_name.
           bindE (py_get body ''playlist_id'' JNull) (\<lambda>pl_id.
           Inr (u, song, artist, pl_name, pl_id)))))) of
        Inl e \<Rightarrow> (Inl e, w)
      | Inr (u, song, artist, pl_name, pl_id) \<Rightarrow>
          if \<not> truthy u then (Inr (error_response uid_required), w)
          else if \<not> truthy song then (Inr (error_response ''Song name is required''), w)
          else if get_spotify_tokens w u = None then (Inr (error_response connect_first), w)
          else
            (case search_tracks w u (search_query song artist) (JInt 1) of
               (Inl e, w1) \<Rightarrow> (Inl e, w1)
             | (Inr [], w1) \<Rightarrow>
                 (Inr (error_response (''Could not find song: '' @ py_str song)), w1)
             | (Inr (track # others), w1) \<Rightarrow>
                 (case target_playlist w1 u pl_id pl_name of
                    (Inl e, w2) \<Rightarrow> (Inl e, w2)
                  | (Inr (Inl early), w2) \<Rightarrow> (Inr early, w2)
                  | (Inr (Inr target), w2) \<Rightarrow> add_track w2 u track target)))"

definition tool_add_to_playlist :: "world \<Rightarrow> json \<Rightarrow> ChatToolResponse \<times> world" where
  "tool_add_to_playlist w body = endpoint ''Failed to add song: '' (add_to_playlist_try w body)"

subsection \<open>create_playlist\<close>

text \<open>The handler reads the raw body: \<^verbatim>\<open>body.get("description", "Created with Omi")\<close> and
  \<^verbatim>\<open>body.get("public", False)\<close>. It does not build a \<^verbatim>\<open>CreatePlaylistRequest\<close>.\<close>

definition create_request_json :: "json \<Rightarrow> json \<Rightarrow> json \<Rightarrow> json" where
  "create_request_json nm descr pub = JObj [(''name'', nm), (''description'', descr), (''public'', pub)]"

definition create_playlist_try :: "world \<Rightarrow> json \<Rightarrow> (exn + ChatToolResponse) \<times> world" where
  "create_playlist_try w body =
     (case bindE (py_get body ''uid'' JNull) (\<lambda>u.
           bindE (py_get body ''name'' (JStr '''')) (\<lambda>nm.
           bindE (py_get body ''description'' (JStr ''Created with Omi'')) (\<lambda>descr.
           bindE (py_get body ''public'' (JBool False)) (\<lambda>pub.
           Inr (u, nm, descr, pub))))) of
        Inl e \<Rightarrow> (Inl e, w)
      | Inr (u, nm, descr, pub) \<Rightarrow>
          if \<not> truthy u then (Inr (error_response uid_required), w)
          else if \<not> truthy nm then (Inr (error_response ''Playlist name is required''), w)
          else if get_spotify_tokens w u = None then (Inr (error_response connect_first), w)
          else
            (case spotify_api_request w u ''GET'' ''/me'' JNull JNull of
               (Inl e, w1) \<Rightarrow> (Inl e, w1)
             | (Inr profile, w1) \<Rightarrow>
                 (case bindE (py_in ''error'' profile) (\<lambda>failed.
                         if failed then Inr None
                         else bindE (py_item profile ''id'') (\<lambda>i. Inr (Some i))) of
                    Inl e \<Rightarrow> (Inl e, w1)
                  | Inr None \<Rightarrow> (Inr (error_response ''Failed to get user profile''), w1)
                  | Inr (Some spotify_user_id) \<Rightarrow>
                      api_then (spotify_api_request w1 u ''POST''
                                  (''/users/'' @ py_str spotify_user_id @ ''/playlists'') JNull
                                  (create_request_json nm descr pub))
                        (\<lambda>res. unless_error ''Failed to create playlist: '' res
                           (bindE (py_get res ''external_urls'' (JObj [])) (\<lambda>eu.
                            bindE (py_get eu ''spotify'' (JStr '''')) (\<lambda>playlist_url.
                            Inr (result_response
                                   (emoji_check @ '' Created playlist **'' @ py_str nm @ ''**!'' @
                                    newline @ newline @ ''Open in Spotify: '' @
                                    py_str playlist_url)))))))))"

definition tool_create_playlist :: "world \<Rightarrow> json \<Rightarrow> ChatToolResponse \<times> world" where
  "tool_create_playlist w body = endpoint ''Failed to create playlist: '' (create_playlist_try w body)"

subsection \<open>get_playlists\<close>

definition playlist_line :: "nat \<times> SpotifyPlaylist \<Rightarrow> string" where
  "playlist_line ip =
     str_int (int (fst ip)) @ ''. '' @
     (if playlist_public (snd ip) then emoji_globe else emoji_lock) @ '' **'' @
     playlist_name (snd ip) @ ''** ('' @ str_int (tracks_total (snd ip)) @ '' tracks)''"

definition get_playlists_result :: "SpotifyPlaylist list \<Rightarrow> ChatToolResponse" where
  "get_playlists_result playlists =
     (if playlists = [] then result_response ''You don't have any playlists yet.''
      else result_response
             (emoji_clipboard @ '' Your playlists:'' @ newline @ newline @
              join newline (map playlist_line (enumerate 1 playlists))))"

definition get_playlists_try :: "world \<Rightarrow> json \<Rightarrow> (exn + ChatToolResponse) \<times> world" where
  "get_playlists_try w body =
     (case bindE (py_get body ''uid'' JNull) (\<lambda>u.
           bindE (py_get body ''limit'' (JInt 10)) (\<lambda>limit. Inr (u, limit))) of
        Inl e \<Rightarrow> (Inl e, w)
      | Inr (u, limit) \<Rightarrow>
          if \<not> truthy u then (Inr (error_response uid_required), w)
          else if get_spotify_tokens w u = None then (Inr (error_response connect_first), w)
          else api_then (get_user_playlists w u limit)
                 (\<lambda>playlists. Inr (get_playlists_result playlists)))"

definition tool_get_playlists :: "world \<Rightarrow> json \<Rightarrow> ChatToolResponse \<times> world" where
  "tool_get_playlists w body = endpoint ''Failed to get playlists: '' (get_playlists_try w body)"

subsection \<open>get_now_playing\<close>

text \<open>\<^verbatim>\<open>", ".join([a["name"] for a in track["artists"]])\<close>.\<close>

definition artist_names :: "json \<Rightarrow> exn + string" where
  "artist_names track =
     bindE (py_item track ''artists'') (\<lambda>ars.
     bindE (py_iter ars) (\<lambda>as.
     bindE (mapE (\<lambda>a. py_item a ''name'') as) (\<lambda>names.
     py_join '', '' (JArr names))))"

text \<open>The duration expression on a value of the provider's JSON.\<close>

definition py_format_duration :: "json \<Rightarrow> exn + string" where
  "py_format_duration v = bindE (py_int v) (\<lambda>ms. Inr (format_duration ms))"

definition now_playing_result :: "json \<Rightarrow> exn + ChatToolResponse" where
  "now_playing_result res =
     bindE (if \<not> truthy res then Inr JNull else py_get res ''item'' JNull) (\<lambda>it.
       if \<not> truthy it
       then Inr (result_response (emoji_muted @ '' Nothing is currently playing on Spotify.''))
       else
         bindE (py_item res ''item'') (\<lambda>track.
         bindE (py_get res ''is_playing'' (JBool False)) (\<lambda>is_playing.
         bindE (py_get res ''progress_ms'' (JInt 0)) (\<lambda>progress_ms.
         bindE (artist_names track) (\<lambda>arts.
         bindE (py_item track ''duration_ms'') (\<lambda>dur_ms.
         bindE (py_format_duration progress_ms) (\<lambda>progress.
         bindE (py_format_duration dur_ms) (\<lambda>duration.
         bindE (py_item track ''name'') (\<lambda>nm.
         bindE (py_item track ''album'') (\<lambda>al.
         bindE (py_item al ''name'') (\<lambda>aln.
         Inr (result_response
                ((if truthy is_playing then emoji_play @ '' Playing'' else emoji_pause @ '' Paused'') @
                 '': **'' @ py_str nm @ ''** by '' @ arts @ newline @
                 ''Album: '' @ py_str aln @ newline @
                 ''Progress: '' @ progress @ '' / '' @ duration)))))))))))))"

definition get_now_playing_try :: "world \<Rightarrow> json \<Rightarrow> (exn + ChatToolResponse) \<times> world" where
  "get_now_playing_try w body =
     (case py_get body ''uid'' JNull of
        Inl e \<Rightarrow> (Inl e, w)
      | Inr u \<Rightarrow>
          if \<not> truthy u then (Inr (error_response uid_required), w)
          else if get_spotify_tokens w u = None then (Inr (error_response connect_first), w)
          else api_then (spotify_api_request w u ''GET'' ''/me/player/currently-playing'' JNull JNull)
                 (\<lambda>res. unless_error ''Failed to get playback: '' res (now_playing_result res)))"

definition tool_get_now_playing :: "world \<Rightarrow> json \<Rightarrow> ChatToolResponse \<times> world" where
  "tool_get_now_playing w body =
     endpoint ''Failed to get current playback: '' (get_now_playing_try w body)"

subsection \<open>control_playback\<close>

definition accepted_actions :: "string list" where
  "accepted_actions = [''play'', ''pause'', ''next'', ''previous'', ''skip'']"

definition invalid_action :: string where
  "invalid_action = ''Invalid action. Use: play, pause, next, previous''"

definition no_active_device :: string where
  "no_active_device = ''No active Spotify device found. Please open Spotify on one of your devices first.''"

text \<open>\<^verbatim>\<open>endpoint_map\<close>: action to (endpoint, method).\<close>

definition endpoint_map :: "(string \<times> string \<times> string) list" where
  "endpoint_map =
     [(''play'', ''/me/player/play'', ''PUT''),
      (''pause'', ''/me/player/pause'', ''PUT''),
      (''next'', ''/me/player/next'', ''POST''),
      (''skip'', ''/me/player/next'', ''POST''),
      (''previous'', ''/me/player/previous'', ''POST'')]"

definition action_messages :: "(string \<times> string) list" where
  "action_messages =
     [(''play'', emoji_play @ '' Resumed playback''),
      (''pause'', emoji_pause @ '' Paused playback''),
      (''next'', emoji_next @ '' Skipped to next track''),
      (''skip'', emoji_next @ '' Skipped to next track''),
      (''previous'', emoji_previous @ '' Went to previous track'')]"

text \<open>A dictionary of the program indexed by a key: \<^verbatim>\<open>KeyError\<close> when the key is missing.\<close>

definition lookup :: "(string \<times> 'a) list \<Rightarrow> string \<Rightarrow> exn + 'a" where
  "lookup d k = (case map_of d k of None \<Rightarrow> Inl (KeyError k) | Some v \<Rightarrow> Inr v)"

text \<open>The error branch shared by \<^verbatim>\<open>control_playback\<close> and \<^verbatim>\<open>play_song\<close>: the provider's
  "No active device" is reported in words of its own.\<close>

definition unless_playback_error :: "string \<Rightarrow> json \<Rightarrow> (exn + ChatToolResponse) \<Rightarrow> exn + ChatToolResponse" where
  "unless_playback_error pre res rest =
     bindE (py_in ''error'' res) (\<lambda>failed.
       if failed then
         bindE (py_get res ''error'' (JStr '''')) (\<lambda>m.
           if sublist ''No active device'' (py_str m) then Inr (error_response no_active_device)
           else bindE (py_item res ''error'') (\<lambda>m'. Inr (error_response (pre @ py_str m'))))
       else rest)"

definition control_playback_try :: "world \<Rightarrow> json \<Rightarrow> (exn + ChatToolResponse) \<times> world" where
  "control_playback_try w body =
     (case bindE (py_get body ''uid'' JNull) (\<lambda>u.
           bindE (py_get body ''action'' (JStr '''')) (\<lambda>a.
           bindE (py_lower w a) (\<lambda>action. Inr (u, action)))) of
        Inl e \<Rightarrow> (Inl e, w)
      | Inr (u, action) \<Rightarrow>
          if \<not> truthy u then (Inr (error_response uid_required), w)
          else if action \<notin> set accepted_actions then (Inr (error_response invalid_action), w)
          else if get_spotify_tokens w u = None then (Inr (error_response connect_first), w)
          else
            (case lookup endpoint_map action of
               Inl e \<Rightarrow> (Inl e, w)
             | Inr em \<Rightarrow>
                 api_then (spotify_api_request w u (snd em) (fst em) JNull JNull)
                   (\<lambda>res. unless_playback_error ''Playback control failed: '' res
                      (bindE (lookup action_messages action) (\<lambda>msg. Inr (result_response msg))))))"

definition tool_control_playback :: "world \<Rightarrow> json \<Rightarrow> ChatToolResponse \<times> world" where
  "tool_control_playback w body = endpoint ''Playback control failed: '' (control_playback_try w body)"

subsection \<open>play_song\<close>

definition play_track :: "world \<Rightarrow> json \<Rightarrow> SpotifyTrack \<Rightarrow> (exn + ChatToolResponse) \<times> world" where
  "play_track w u track =
     api_then (spotify_api_request w u ''PUT'' ''/me/player/play'' JNull
                 (JObj [(''uris'', JArr [JStr (track_uri track)])]))
       (\<lambda>res. unless_playback_error ''Failed to play: '' res
          (Inr (result_response
                  (emoji_play @ '' Now playing: **'' @ track_name track @ ''** by '' @
                   join '', '' (artists track)))))"

definition play_song_try :: "world \<Rightarrow> json \<Rightarrow> (exn + ChatToolResponse) \<times> world" where
  "play_song_try w body =
     (case bindE (py_get body ''uid'' JNull) (\<lambda>u.
           bindE (py_get body ''song_name'' (JStr '''')) (\<lambda>song.
           bindE (py_get body ''artist_name'' (JStr '''')) (\<lambda>artist.
           Inr (u, song, artist)))) of
        Inl e \<Rightarrow> (Inl e, w)
      | Inr (u, song, artist) \<Rightarrow>
          if \<not> truthy u then (Inr (error_response uid_required), w)
          else if \<not> truthy song then (Inr (error_response ''Song name is required''), w)
          else if get_spotify_tokens w u = None then (Inr (error_response connect_first), w)
          else
            (case search_tracks w u (search_query song artist) (JInt 1) of
               (Inl e, w1) \<Rightarrow> (Inl e, w1)
             | (Inr [], w1) \<Rightarrow>
                 (Inr (error_response (''Could not find song: '' @ py_str song)), w1)
             | (Inr (track # others), w1) \<Rightarrow> play_track w1 u track))"

definition tool_play_song :: "world \<Rightarrow> json \<Rightarrow> ChatToolResponse \<times> world" where
  "tool_play_song w body = endpoint ''Failed to play song: '' (play_song_try w body)"

subsection \<open>get_recommendations\<close>

text \<open>The seeds taken from the recently played tracks, when the request gives none:
  \<^verbatim>\<open>[item["track"]["id"] for item in recent["items"][:5]]\<close>, or nothing.\<close>

definition recent_seeds :: "json \<Rightarrow> exn + json option" where
  "recent_seeds recent =
     bindE (py_in ''error'' recent) (\<lambda>failed.
       if failed then Inr None
       else bindE (py_get recent ''items'' JNull) (\<lambda>its.
            if \<not> truthy its then Inr None
            else bindE (py_item recent ''items'') (\<lambda>its'.
                 bindE (py_take5 its') (\<lambda>five.
                 bindE (py_iter five) (\<lambda>xs.
                 bindE (mapE (\<lambda>item. bindE (py_item item ''track'') (\<lambda>t. py_item t ''id'')) xs)
                   (\<lambda>ids. Inr (Some (JArr ids))))))))"

text \<open>\<^verbatim>\<open>if seeds: params[k] = ",".join(seeds[:5])\<close>.\<close>

definition seed_param :: "string \<Rightarrow> json \<Rightarrow> exn + (string \<times> json) list" where
  "seed_param k seeds =
     (if truthy seeds
      then bindE (py_take5 seeds) (\<lambda>five. bindE (py_join '','' five) (\<lambda>j. Inr [(k, JStr j)]))
      else Inr [])"

definition recommendation_params :: "json \<Rightarrow> json \<Rightarrow> json \<Rightarrow> json \<Rightarrow> exn + json" where
  "recommendation_params limit seed_tracks seed_artists seed_genres =
     bindE (seed_param ''seed_tracks'' seed_tracks) (\<lambda>ts.
     bindE (seed_param ''seed_artists'' seed_artists) (\<lambda>ars.
     bindE (seed_param ''seed_genres'' seed_genres) (\<lambda>gs.
     Inr (JObj ([(''limit'', limit)] @ ts @ ars @ gs)))))"

definition recommendation_line :: "nat \<times> json \<Rightarrow> exn + string" where
  "recommendation_line it =
     bindE (artist_names (snd it)) (\<lambda>arts.
     bindE (py_item (snd it) ''name'') (\<lambda>nm.
     Inr (str_int (int (fst it)) @ ''. **'' @ py_str nm @ ''** by '' @ arts)))"

definition recommendations_result :: "json \<Rightarrow> exn + ChatToolResponse" where
  "recommendations_result res =
     bindE (py_get res ''tracks'' (JArr [])) (\<lambda>tracks.
       if \<not> truthy tracks then Inr (result_response ''No recommendations found.'')
       else bindE (py_iter tracks) (\<lambda>xs.
            bindE (mapE recommendation_line (enumerate 1 xs)) (\<lambda>ls.
            Inr (result_response
                   (emoji_headphones @ '' Recommended songs for you:'' @ newline @ newline @
                    join newline ls)))))"

definition recommend :: "world \<Rightarrow> json \<Rightarrow> json \<Rightarrow> json \<Rightarrow> json \<Rightarrow> json \<Rightarrow> (exn + ChatToolResponse) \<times> world" where
  "recommend w u limit seed_tracks seed_artists seed_genres =
     (case recommendation_params limit seed_tracks seed_artists seed_genres of
        Inl e \<Rightarrow> (Inl e, w)
      | Inr ps \<Rightarrow>
          api_then (spotify_api_request w u ''GET'' ''/recommendations'' ps JNull)
            (\<lambda>res. unless_error ''Failed to get recommendations: '' res (recommendations_result res)))"

definition get_recommendations_try :: "world \<Rightarrow> json \<Rightarrow> (exn + ChatToolResponse) \<times> world" where
  "get_recommendations_try w body =
     (case bindE (py_get body ''uid'' JNull) (\<lambda>u.
           bindE (py_get body ''seed_tracks'' (JArr [])) (\<lambda>st.
           bindE (py_get body ''seed_artists'' (JArr [])) (\<lambda>sa.
           bindE (py_get body ''seed_genres'' (JArr [])) (\<lambda>sg.
           bindE (py_get body ''limit'' (JInt 5)) (\<lambda>limit.
           Inr (u, st, sa, sg, limit)))))) of
        Inl e \<Rightarrow> (Inl e, w)
      | Inr (u, st, sa, sg, limit) \<Rightarrow>
          if \<not> truthy u then (Inr (error_response uid_required), w)
          else if get_spotify_tokens w u = None then (Inr (error_response connect_first), w)
          else if \<not> truthy st \<and> \<not> truthy sa \<and> \<not> truthy sg then
            (case spotify_api_request w u ''GET'' ''/me/player/recently-played''
                    (JObj [(''limit'', JInt 5)]) JNull of
               (Inl e, w1) \<Rightarrow> (Inl e, w1)
             | (Inr recent, w1) \<Rightarrow>
                 (case recent_seeds recent of
                    Inl e \<Rightarrow> (Inl e, w1)
                  | Inr None \<Rightarrow> recommend w1 u limit st sa sg
                  | Inr (Some ids) \<Rightarrow> recommend w1 u limit ids sa sg))
          else recommend w u limit st sa sg)"

definition tool_get_recommendations :: "world \<Rightarrow> json \<Rightarrow> ChatToolResponse \<times> world" where
  "tool_get_recommendations w body =
     endpoint ''Failed to get recommendations: '' (get_recommendations_try w body)"

section \<open>Concrete worlds\<close>

text \<open>
  Inputs on which the properties below are run. One user, \<^verbatim>\<open>u1\<close>, has a credential record
  (expiring at time 2000) and the default playlist \<^verbatim>\<open>{id: "p1", name: "Chill"}\<close>; no other
  uid has a record. \<open>render_exn\<close> is one rendering of \<^verbatim>\<open>str(e)\<close>. The only text beyond
  ASCII in these inputs is the Kelvin sign (U+212A, the bytes E2 84 AA), which
  \<open>kelvin_lower\<close> lowers to \<^verbatim>\<open>k\<close> as Python does; every value a model is built from has its
  declared type, so no conversion is asked for (\<open>no_conversion\<close>).
\<close>

fun kelvin_lower :: "string \<Rightarrow> string" where
  "kelvin_lower [] = []"
| "kelvin_lower (c # cs) =
     (if take 3 (c # cs) = [CHR 0xE2, CHR 0x84, CHR 0xAA] then CHR ''k'' # kelvin_lower (drop 2 cs)
      else lower_char c # kelvin_lower cs)"

definition no_conversion :: "json \<Rightarrow> 'a option" where
  "no_conversion v = None"


fun render_exn :: "exn \<Rightarrow> string" where
  "render_exn (KeyError k) = repr_str k"
| "render_exn (AttributeError t a) =
     [CHR 0x27] @ t @ [CHR 0x27] @ '' object has no attribute '' @ [CHR 0x27] @ a @ [CHR 0x27]"
| "render_exn TypeError = ''TypeError''"
| "render_exn (ValidationError m) = ''1 validation error for '' @ m"
| "render_exn (RequestException d) = d"
| "render_exn JSONDecodeError = ''Expecting value: line 1 column 1 (char 0)''"

definition demo_world :: "int \<Rightarrow> (http_request list \<Rightarrow> http_request \<Rightarrow> http_outcome) \<Rightarrow> world" where
  "demo_world now p =
     \<lparr>tokens_db = [JStr ''u1'' \<mapsto>
                    \<lparr>access_token = JStr ''tok'', refresh_token = JStr ''ref'', expires_at = 2000\<rparr>],
      default_playlist_db = [JStr ''u1'' \<mapsto> (''p1'', ''Chill'')],
      clock = now, sent = [], provider = p, client_basic = ''aWQ6c2VjcmV0'',
      str_exn = render_exn, unicode_lower = kelvin_lower, unicode_upper = map upper_char,
      convert_str = no_conversion, convert_int = no_conversion, convert_bool = no_conversion\<rparr>"

definition demo_track :: json where
  "demo_track =
     JObj [(''id'', JStr ''t1''), (''name'', JStr ''Teardrop''),
           (''artists'', JArr [JObj [(''name'', JStr ''Massive Attack'')]]),
           (''album'', JObj [(''name'', JStr ''Mezzanine'')]),
           (''duration_ms'', JInt 125000), (''uri'', JStr ''spotify:track:t1'')]"

definition demo_playlist :: "string \<Rightarrow> string \<Rightarrow> json" where
  "demo_playlist i n =
     JObj [(''id'', JStr i), (''name'', JStr n), (''description'', JStr ''''),
           (''owner'', JObj [(''display_name'', JStr ''Ann'')]),
           (''tracks'', JObj [(''total'', JInt 12)]), (''public'', JBool False),
           (''uri'', JStr (''spotify:playlist:'' @ i))]"

text \<open>A provider that answers every endpoint the handlers call, and 404 elsewhere.\<close>

definition spotify :: "http_request list \<Rightarrow> http_request \<Rightarrow> http_outcome" where
  "spotify log req =
     (if url req = SPOTIFY_API_BASE @ ''/search''
        then Response 200 (JsonContent (JObj [(''tracks'', JObj [(''items'', JArr [demo_track])])]))
      else if url req = SPOTIFY_API_BASE @ ''/me/playlists''
        then Response 200 (JsonContent (JObj [(''items'',
               JArr [demo_playlist ''p7'' ''Road Trip'', demo_playlist ''p8'' ''Trip Hop''])]))
      else if url req = SPOTIFY_API_BASE @ ''/me''
        then Response 200 (JsonContent (JObj [(''id'', JStr ''ann'')]))
      else if url req = SPOTIFY_API_BASE @ ''/users/ann/playlists''
        then Response 201 (JsonContent (JObj [(''external_urls'',
               JObj [(''spotify'', JStr ''https://open.spotify.com/playlist/p9'')])]))
      else if url req = SPOTIFY_API_BASE @ ''/playlists/p1/tracks''
        then Response 201 (JsonContent (JObj [(''snapshot_id'', JStr ''s1'')]))
      else if url req = SPOTIFY_API_BASE @ ''/me/player/next''
        then Response 204 NoContent
      else if url req = SPOTIFY_API_BASE @ ''/me/player/currently-playing''
        then Response 200 (JsonContent (JObj [(''is_playing'', JBool True),
               (''progress_ms'', JInt 59000), (''item'', demo_track)]))
      else Response 404 (JsonContent (JObj [(''error'',
             JObj [(''status'', JInt 404), (''message'', JStr ''Not found'')])])))"

text \<open>A provider whose error body carries a string under \<^verbatim>\<open>error\<close>, one that has no
  playlists, and a network that is down.\<close>

definition refusing :: "http_request list \<Rightarrow> http_request \<Rightarrow> http_outcome" where
  "refusing log req = Response 400 (JsonContent (JObj [(''error'', JStr ''invalid_request'')]))"

definition no_playlists :: "http_request list \<Rightarrow> http_request \<Rightarrow> http_outcome" where
  "no_playlists log req = Response 200 (JsonContent (JObj [(''items'', JArr [])]))"

definition unreachable :: "http_request list \<Rightarrow> http_request \<Rightarrow> http_outcome" where
  "unreachable log req = TransportFailure ''Connection refused''"

section \<open>Properties\<close>

subsection \<open>Exceptions in sequence\<close>

lemma bindE_Inr [simp]: "bindE (Inr v) f = f v"
  by (simp add: bindE_def)

lemma bindE_Inl [simp]: "bindE (Inl e) f = Inl e"
  by (simp add: bindE_def)

lemma bindE_Inr_iff: "bindE m f = Inr y \<longleftrightarrow> (\<exists>x. m = Inr x \<and> f x = Inr y)"
  by (cases m) simp_all

subsection \<open>Evaluation\<close>

lemma lower_ascii: "is_ascii s \<Longrightarrow> lower w s = map lower_char s"
  by (simp add: lower_def)

lemma upper_ascii: "is_ascii s \<Longrightarrow> upper w s = map upper_char s"
  by (simp add: upper_def)

lemma py_get_object: "py_get body k d = Inr v \<Longrightarrow> \<exists>kvs. body = JObj kvs"
  by (cases body) simp_all

lemma py_get_field:
  "py_get (JObj kvs) k d = Inr (case map_of kvs k of None \<Rightarrow> d | Some v \<Rightarrow> v)"
  by (simp split: option.splits)

lemmas store_defs = get_spotify_tokens_def is_token_expired_def get_default_playlist_def
  store_spotify_tokens_def requests_send_def

lemmas eval_defs = demo_world_def spotify_def SPOTIFY_API_BASE_def get_spotify_tokens_def
  is_token_expired_def get_default_playlist_def requests_send_def get_valid_access_token_def
  spotify_api_request_def api_call_def get_auth_header_def except_RequestException_def
  success_marker_def error_shape_def upper_def upper_char_def lower_def lower_char_def
  is_ascii_def

lemmas run_defs = eval_defs read_response.simps search_tracks_def track_of_item_def track_kwargs_def
  SpotifyTrack_init_def SpotifyPlaylist_init_def required_def optional_def demo_track_def
  demo_playlist_def get_user_playlists_def playlist_of_item_def playlist_kwargs_def

lemmas try_defs = search_songs_try_def add_to_playlist_try_def create_playlist_try_def
  get_playlists_try_def get_now_playing_try_def control_playback_try_def play_song_try_def
  get_recommendations_try_def

lemmas tool_defs = tool_search_songs_def tool_add_to_playlist_def tool_create_playlist_def
  tool_get_playlists_def tool_get_now_playing_def tool_control_playback_def tool_play_song_def
  tool_get_recommendations_def

subsection \<open>The API client with a token\<close>


lemma api_request_with_token:
  assumes "get_valid_access_token w u = (Inr tok, w1)" and "truthy tok"
      and "upper w m \<in> set [''GET'', ''POST'', ''PUT'', ''DELETE'']"
  shows "spotify_api_request w u m ep ps js =
           (except_RequestException w1
              (read_response (provider w1 (sent w1) (api_call (upper w m) ep tok ps js))),
            w1\<lparr>sent := sent w1 @ [api_call (upper w m) ep tok ps js]\<rparr>)"
  using assms
  by (simp add: spotify_api_request_def requests_send_def except_RequestException_def
           del: set_simps split: sum.splits)

lemma api_then_world: "snd (api_then r f) = snd r"
  by (cases r) (auto simp: api_then_def split: sum.splits)

lemma api_then_value:
  "fst r = Inr v \<Longrightarrow> fst (api_then r f) = f v"
  by (cases r) (auto simp: api_then_def)

subsection \<open>Playlists: the required field that no call passes\<close>

text \<open>
  \<^verbatim>\<open>SpotifyPlaylist\<close> declares \<^verbatim>\<open>canEdit: bool\<close> without a default, and none of the three
  calls of \<^verbatim>\<open>SpotifyPlaylist(...)\<close> in \<^verbatim>\<open>main.py\<close> passes it. So every one of them raises:
  \<^verbatim>\<open>get_user_playlists\<close> returns a list only when the provider lists no playlist,
  \<^verbatim>\<open>find_playlist_by_name\<close> never finds one, and \<^verbatim>\<open>add_to_playlist\<close> never reaches its
  request to add the track.
\<close>

lemma SpotifyPlaylist_needs_canEdit:
  "map_of kw ''canEdit'' = None \<Longrightarrow> SpotifyPlaylist_init w kw = Inl (ValidationError ''SpotifyPlaylist'')"
  by (simp add: SpotifyPlaylist_init_def required_def split: option.splits)

lemma playlist_kwargs_no_canEdit:
  "playlist_kwargs item = Inr kw \<Longrightarrow> map_of kw ''canEdit'' = None"
  by (auto simp: playlist_kwargs_def bindE_Inr_iff)

lemma playlist_of_item_raises: "playlist_of_item w item \<noteq> Inr p"
proof
  assume "playlist_of_item w item = Inr p"
  then obtain kw where "playlist_kwargs item = Inr kw" "SpotifyPlaylist_init w kw = Inr p"
    by (auto simp: playlist_of_item_def bindE_Inr_iff)
  then show False
    using SpotifyPlaylist_needs_canEdit [OF playlist_kwargs_no_canEdit] by simp
qed

lemma mapE_playlists_empty: "mapE (playlist_of_item w) xs = Inr ps \<Longrightarrow> xs = [] \<and> ps = []"
  by (cases xs) (auto simp: bindE_Inr_iff playlist_of_item_raises)

lemma get_user_playlists_never_lists:
  "fst (get_user_playlists w u limit) = Inr ps \<Longrightarrow> ps = []"
  by (auto simp: get_user_playlists_def bindE_Inr_iff split: prod.splits sum.splits if_splits
           dest: mapE_playlists_empty)

lemma find_playlist_by_name_never_finds:
  "fst (find_playlist_by_name w u nm) \<noteq> Inr (Some p)"
proof
  assume a: "fst (find_playlist_by_name w u nm) = Inr (Some p)"
  obtain r w' where g: "get_user_playlists w u (JInt 50) = (r, w')"
    by (cases "get_user_playlists w u (JInt 50)")
  show False
  proof (cases r)
    case (Inl e)
    with a g show False by (simp add: find_playlist_by_name_def)
  next
    case (Inr ps)
    with g have "ps = []" using get_user_playlists_never_lists [of w u "JInt 50" ps] by simp
    with a g Inr show False
      by (auto simp: find_playlist_by_name_def match_playlist_def bindE_Inr_iff)
  qed
qed

lemma match_playlist_exact_first:
  "match_playlist w ps n = Some p \<Longrightarrow> \<exists>q \<in> set ps. lower w (playlist_name q) = n \<Longrightarrow>
     lower w (playlist_name p) = n"
  by (auto simp: match_playlist_def find_Some_iff find_None_iff split: option.splits)

lemma get_user_playlists_on_error:
  assumes "spotify_api_request w u ''GET'' ''/me/playlists'' (JObj [(''limit'', limit)]) JNull = (Inr res, w')"
      and "py_in ''error'' res = Inr True"
  shows "get_user_playlists w u limit = (Inr [], w')"
  using assms by (simp add: get_user_playlists_def)

lemma SpotifyPlaylist_call_raises:
  "SpotifyPlaylist_init w [(''id'', i), (''name'', n), (''owner'', ow), (''tracks_total'', t),
                         (''public'', p), (''uri'', ur)] = Inl (ValidationError ''SpotifyPlaylist'')"
  by (rule SpotifyPlaylist_needs_canEdit) simp

lemma target_playlist_default_raises:
  assumes "\<not> truthy pl_id" and "\<not> truthy pl_name" and "get_default_playlist w u = Some d"
  shows "target_playlist w u pl_id pl_name = (Inl (ValidationError ''SpotifyPlaylist''), w)"
  using assms by (simp add: target_playlist_def SpotifyPlaylist_call_raises)

lemma target_playlist_never: "fst (target_playlist w u pl_id pl_name) \<noteq> Inr (Inr p)"
proof (cases "truthy pl_id")
  case True
  then show ?thesis by (simp add: target_playlist_def SpotifyPlaylist_call_raises)
next
  case False
  show ?thesis
  proof (cases "truthy pl_name")
    case True
    obtain r w' where f: "find_playlist_by_name w u pl_name = (r, w')"
      by (cases "find_playlist_by_name w u pl_name")
    with find_playlist_by_name_never_finds [of w u pl_name] have "r \<noteq> Inr (Some p)" for p
      by simp
    with False True f show ?thesis
      by (auto simp: target_playlist_def api_then_def split: sum.splits option.splits)
  next
    case no_name: False
    with False show ?thesis
      by (cases "get_default_playlist w u")
         (simp_all add: target_playlist_def SpotifyPlaylist_call_raises)
  qed
qed

lemma add_to_default_playlist_raises:
  assumes "py_get body ''uid'' JNull = Inr u" and "truthy u"
      and "py_get body ''song_name'' (JStr []) = Inr song" and "truthy song"
      and "py_get body ''artist_name'' (JStr []) = Inr artist"
      and "py_get body ''playlist_name'' JNull = Inr pl_name" and "\<not> truthy pl_name"
      and "py_get body ''playlist_id'' JNull = Inr pl_id" and "\<not> truthy pl_id"
      and "get_spotify_tokens w u = Some c"
      and "search_tracks w u (search_query song artist) (JInt 1) = (Inr (track # others), w1)"
      and "get_default_playlist w1 u = Some d"
  shows "tool_add_to_playlist w body =
           (error_response (''Failed to add song: '' @ str_exn w1 (ValidationError ''SpotifyPlaylist'')), w1)"
  using assms
  by (simp add: tool_add_to_playlist_def add_to_playlist_try_def endpoint_def
        target_playlist_default_raises)

text \<open>
  C2 against the code. The provider answers \<^verbatim>\<open>GET /me/playlists\<close> with two well-formed
  items; \<^verbatim>\<open>get_user_playlists\<close> raises the validation error on the first instead of
  returning two playlists. (When the API client returns an error shape, it does return
  the empty list: \<open>get_user_playlists_on_error\<close>; when the client raises, so does it.)
\<close>

theorem get_user_playlists_raises_on_items:
  "get_user_playlists (demo_world 1000 spotify) (JStr ''u1'') (JInt 20) =
     (Inl (ValidationError ''SpotifyPlaylist''),
      (demo_world 1000 spotify)
        \<lparr>sent := [api_call ''GET'' ''/me/playlists'' (JStr ''tok'') (JObj [(''limit'', JInt 20)]) JNull]\<rparr>)"
  by (simp add: run_defs)

text \<open>
  C4 against the code. The user's playlists are "Road Trip" and "Trip Hop";
  \<^verbatim>\<open>find_playlist_by_name\<close> for "Trip Hop" raises while fetching them and returns no
  playlist. The two loops themselves prefer the exact match (\<open>match_playlist_exact_first\<close>),
  but they never run on a list that holds a playlist.
\<close>

theorem find_playlist_by_name_raises:
  "find_playlist_by_name (demo_world 1000 spotify) (JStr ''u1'') (JStr ''Trip Hop'') =
     (Inl (ValidationError ''SpotifyPlaylist''),
      (demo_world 1000 spotify)
        \<lparr>sent := [api_call ''GET'' ''/me/playlists'' (JStr ''tok'') (JObj [(''limit'', JInt 50)]) JNull]\<rparr>)"
  by (simp add: find_playlist_by_name_def run_defs)

text \<open>
  C1 against the code. The user \<^verbatim>\<open>u1\<close> has a credential record and the default playlist
  \<^verbatim>\<open>{id: "p1", name: "Chill"}\<close>, the song is found, and the body names no playlist: the
  response is the error "Failed to add song: ..." with the text of the validation error,
  and the only request sent is the search; nothing is posted to \<^verbatim>\<open>/playlists/p1/tracks\<close>.
\<close>

theorem add_to_default_playlist_fails:
  "get_default_playlist (demo_world 1000 spotify) (JStr ''u1'') = Some (''p1'', ''Chill'')
   \<and> tool_add_to_playlist (demo_world 1000 spotify)
        (JObj [(''uid'', JStr ''u1''), (''song_name'', JStr ''Teardrop'')]) =
       (error_response ''Failed to add song: 1 validation error for SpotifyPlaylist'',
        (demo_world 1000 spotify)
          \<lparr>sent := [api_call ''GET'' ''/search'' (JStr ''tok'')
                      (JObj [(''q'', JStr ''Teardrop''), (''type'', JStr ''track''), (''limit'', JInt 1)])
                      JNull]\<rparr>)"
  by (simp add: tool_add_to_playlist_def add_to_playlist_try_def endpoint_def search_query_def
        target_playlist_def run_defs)

subsection \<open>The API client: what it returns and when it raises\<close>

lemma api_request_outcomes:
  assumes "get_valid_access_token w u = (Inr tok, w1)" and "truthy tok"
      and "upper w m \<in> set [''GET'', ''POST'', ''PUT'', ''DELETE'']"
  shows "provider w1 (sent w1) (api_call (upper w m) ep tok ps js) = Response 204 c \<Longrightarrow>
           fst (spotify_api_request w u m ep ps js) = Inr success_marker"
    and "provider w1 (sent w1) (api_call (upper w m) ep tok ps js) = Response st NoContent \<Longrightarrow>
           400 \<le> st \<Longrightarrow>
           fst (spotify_api_request w u m ep ps js) =
             Inr (error_shape (JStr (''API error: '' @ str_int st)))"
    and "provider w1 (sent w1) (api_call (upper w m) ep tok ps js) =
             Response st (JsonContent (JObj kvs)) \<Longrightarrow>
           400 \<le> st \<Longrightarrow> map_of kvs ''error'' = Some (JObj e) \<Longrightarrow> map_of e ''message'' = Some msg \<Longrightarrow>
           fst (spotify_api_request w u m ep ps js) = Inr (error_shape msg)"
    and "provider w1 (sent w1) (api_call (upper w m) ep tok ps js) =
             Response st (JsonContent (JObj kvs)) \<Longrightarrow>
           400 \<le> st \<Longrightarrow> map_of kvs ''error'' = None \<Longrightarrow>
           fst (spotify_api_request w u m ep ps js) =
             Inr (error_shape (JStr (''API error: '' @ str_int st)))"
    and "provider w1 (sent w1) (api_call (upper w m) ep tok ps js) = TransportFailure d \<Longrightarrow>
           fst (spotify_api_request w u m ep ps js) =
             Inr (error_shape (JStr (''Request failed: '' @ str_exn w1 (RequestException d))))"
  unfolding api_request_with_token [OF assms]
  by (simp_all add: except_RequestException_def)

text \<open>
  C5 against the code. Two calls in which \<^verbatim>\<open>spotify_api_request\<close> raises to its caller.
  With a valid token, the provider answers status 400 with the body
  \<^verbatim>\<open>{"error": "invalid_request"}\<close>: \<^verbatim>\<open>error_data.get("error", {})\<close> is a string, and
  \<^verbatim>\<open>.get("message", ...)\<close> on it raises \<^verbatim>\<open>AttributeError\<close>, which the \<^verbatim>\<open>except\<close> clause does
  not catch. With an expired token and the network down, the refresh request fails in
  \<^verbatim>\<open>get_valid_access_token\<close>, which is called before the \<^verbatim>\<open>try\<close>: the
  \<^verbatim>\<open>RequestException\<close> escapes. (What the claim says of status 204, of the nested message
  and its fallback, and of a transport failure of the request itself holds once a token
  is there: \<open>api_request_outcomes\<close>.)
\<close>

theorem api_client_raises:
  "fst (get_valid_access_token (demo_world 1000 refusing) (JStr ''u1'')) = Inr (JStr ''tok'')
   \<and> refusing [] (api_call ''GET'' ''/me'' (JStr ''tok'') JNull JNull) =
       Response 400 (JsonContent (JObj [(''error'', JStr ''invalid_request'')]))
   \<and> fst (spotify_api_request (demo_world 1000 refusing) (JStr ''u1'') ''GET'' ''/me'' JNull JNull) =
       Inl (AttributeError ''str'' ''get'')
   \<and> is_token_expired (demo_world 3000 unreachable) (JStr ''u1'')
   \<and> fst (spotify_api_request (demo_world 3000 unreachable) (JStr ''u1'') ''GET'' ''/me'' JNull JNull) =
       Inl (RequestException ''Connection refused'')"
  by (simp add: eval_defs refusing_def unreachable_def refresh_access_token_def)

subsection \<open>create_playlist: the defaults\<close>

text \<open>
  C6, as amended. When the input holds neither \<^verbatim>\<open>description\<close> nor \<^verbatim>\<open>public\<close>: the
  \<^verbatim>\<open>CreatePlaylistRequest\<close> schema sets \<^verbatim>\<open>description\<close> to the empty string and \<^verbatim>\<open>public\<close>
  to false; the \<^verbatim>\<open>create_playlist\<close> handler, which reads the body itself, behaves as on
  the same body with \<^verbatim>\<open>description = "Created with Omi"\<close> and \<^verbatim>\<open>public = false\<close>.
\<close>

theorem create_playlist_defaults:
  assumes "map_of kw ''description'' = None" and "map_of kw ''public'' = None"
      and "map_of kw ''uid'' = Some (JStr u)" and "map_of kw ''app_id'' = Some (JStr a)"
      and "map_of kw ''tool_name'' = Some (JStr t)" and "map_of kw ''name'' = Some (JStr n)"
  shows "CreatePlaylistRequest_init w kw =
           Inr \<lparr>uid = u, app_id = a, tool_name = t, name = n, description = Some [], public = False\<rparr>
         \<and> tool_create_playlist w (JObj kw) =
             tool_create_playlist w
               (JObj (kw @ [(''description'', JStr ''Created with Omi''), (''public'', JBool False)]))"
proof -
  have s: "CreatePlaylistRequest_init w kw =
           Inr \<lparr>uid = u, app_id = a, tool_name = t, name = n, description = Some [], public = False\<rparr>"
    using assms by (simp add: CreatePlaylistRequest_init_def required_def optional_def)
  define kw' where "kw' = kw @ [(''description'', JStr ''Created with Omi''), (''public'', JBool False)]"
  have f: "map_of kw' ''uid'' = map_of kw ''uid''" "map_of kw' ''name'' = map_of kw ''name''"
    "map_of kw' ''description'' = Some (JStr ''Created with Omi'')"
    "map_of kw' ''public'' = Some (JBool False)"
    using assms(1,2) by (simp_all add: kw'_def map_add_def split: option.splits)
  have "create_playlist_try w (JObj kw) = create_playlist_try w (JObj kw')"
    unfolding create_playlist_try_def py_get_field f using assms(1,2) by simp
  then have h: "create_playlist_try w (JObj kw) =
           create_playlist_try w
             (JObj (kw @ [(''description'', JStr ''Created with Omi''), (''public'', JBool False)]))"
    by (simp add: kw'_def)
  show ?thesis using s h by (simp add: tool_create_playlist_def)
qed

text \<open>The body \<^verbatim>\<open>{uid: "u1", app_id: "omi", tool_name: "create_playlist", name: "Mix"}\<close>:
  the schema's description is empty, and the JSON the handler posts carries
  "Created with Omi".\<close>

theorem create_playlist_defaults_witness:
  "CreatePlaylistRequest_init (demo_world 1000 spotify)
     [(''uid'', JStr ''u1''), (''app_id'', JStr ''omi''), (''tool_name'', JStr ''create_playlist''),
      (''name'', JStr ''Mix'')] =
     Inr \<lparr>uid = ''u1'', app_id = ''omi'', tool_name = ''create_playlist'', name = ''Mix'',
          description = Some [], public = False\<rparr>
   \<and> json_data (last (sent (snd (tool_create_playlist (demo_world 1000 spotify)
        (JObj [(''uid'', JStr ''u1''), (''app_id'', JStr ''omi''),
               (''tool_name'', JStr ''create_playlist''), (''name'', JStr ''Mix'')]))))) =
       JObj [(''name'', JStr ''Mix''), (''description'', JStr ''Created with Omi''),
             (''public'', JBool False)]"
proof -
  note th = create_playlist_defaults
      [of "[(''uid'', JStr ''u1''), (''app_id'', JStr ''omi''),
            (''tool_name'', JStr ''create_playlist''), (''name'', JStr ''Mix'')]"
          "''u1''" "''omi''" "''create_playlist''" "''Mix''" "demo_world 1000 spotify"]
  have run: "json_data (last (sent (snd (tool_create_playlist (demo_world 1000 spotify)
        (JObj [(''uid'', JStr ''u1''), (''app_id'', JStr ''omi''),
               (''tool_name'', JStr ''create_playlist''), (''name'', JStr ''Mix''),
               (''description'', JStr ''Created with Omi''), (''public'', JBool False)]))))) =
       JObj [(''name'', JStr ''Mix''), (''description'', JStr ''Created with Omi''),
             (''public'', JBool False)]"
    by (simp add: tool_create_playlist_def create_playlist_try_def endpoint_def api_then_def
          unless_error_def create_request_json_def eval_defs)
  from th run show ?thesis by simp
qed

text \<open>C6 as stated fails: built without a description, the schema's field is the empty
  string, not "Created with Omi".\<close>

theorem schema_description_default_is_empty:
  "CreatePlaylistRequest_init (demo_world 1000 spotify)
     [(''uid'', JStr ''u1''), (''app_id'', JStr ''omi''), (''tool_name'', JStr ''create_playlist''),
      (''name'', JStr ''Mix'')] =
     Inr \<lparr>uid = ''u1'', app_id = ''omi'', tool_name = ''create_playlist'', name = ''Mix'',
          description = Some [], public = False\<rparr>
   \<and> Some [] \<noteq> Some ''Created with Omi''"
  by (simp add: CreatePlaylistRequest_init_def required_def optional_def)

subsection \<open>control_playback: the guards\<close>

lemma control_playback_guards:
  assumes "py_get body ''uid'' JNull = Inr u" "truthy u"
      and "py_get body ''action'' (JStr []) = Inr (JStr a)"
  shows "lower w a \<notin> set accepted_actions \<Longrightarrow>
           tool_control_playback w body = (error_response invalid_action, w)"
    and "lower w a \<in> set accepted_actions \<Longrightarrow> get_spotify_tokens w u = None \<Longrightarrow>
           tool_control_playback w body = (error_response connect_first, w)"
  using assms by (simp_all add: tool_control_playback_def control_playback_try_def endpoint_def)

text \<open>
  C8, as amended. For every request body with a non-empty uid whose action, a string
  (or absent, which reads as the empty string), lies outside the set
  \<^verbatim>\<open>{play, pause, next, previous, skip}\<close> once lowered, \<^verbatim>\<open>control_playback\<close> returns the
  invalid-action error and leaves the world as it was: no request is sent to the music
  provider.
\<close>

theorem control_playback_rejects_unknown_action:
  assumes "py_get body ''uid'' JNull = Inr u" and "truthy u"
      and "py_get body ''action'' (JStr []) = Inr (JStr a)"
      and "lower w a \<notin> {''play'', ''pause'', ''next'', ''previous'', ''skip''}"
  shows "tool_control_playback w body =
           (\<lparr>result = None, error = Some ''Invalid action. Use: play, pause, next, previous''\<rparr>, w)
         \<and> sent (snd (tool_control_playback w body)) = sent w"
proof -
  have "lower w a \<notin> set accepted_actions"
    using assms(4) by (simp add: accepted_actions_def)
  from control_playback_guards(1) [OF assms(1-3) this]
  show ?thesis by (simp add: error_response_def invalid_action_def)
qed

text \<open>The user \<^verbatim>\<open>u1\<close>, who has a credential record, asks for \<^verbatim>\<open>Shuffle\<close>.\<close>

theorem control_playback_rejects_unknown_action_witness:
  "lower (demo_world 1000 spotify) ''Shuffle'' = ''shuffle''
   \<and> tool_control_playback (demo_world 1000 spotify)
       (JObj [(''uid'', JStr ''u1''), (''action'', JStr ''Shuffle'')])
     = (\<lparr>result = None, error = Some ''Invalid action. Use: play, pause, next, previous''\<rparr>,
        demo_world 1000 spotify)"
proof -
  have l: "lower (demo_world 1000 spotify) ''Shuffle'' = ''shuffle''"
    by (simp add: lower_def is_ascii_def lower_char_def)
  note th = control_playback_rejects_unknown_action
         [of "JObj [(''uid'', JStr ''u1''), (''action'', JStr ''Shuffle'')]" "JStr ''u1''"
             "''Shuffle''" "demo_world 1000 spotify"]
  from th l show ?thesis by simp
qed

text \<open>
  C8 as stated fails: a body with the action \<^verbatim>\<open>shuffle\<close> and no uid is answered
  \<^verbatim>\<open>User ID is required\<close>, since the uid is checked before the action.
\<close>

theorem control_playback_without_uid:
  "lower (demo_world 1000 spotify) ''shuffle'' \<notin> {''play'', ''pause'', ''next'', ''previous'', ''skip''}
   \<and> tool_control_playback (demo_world 1000 spotify) (JObj [(''action'', JStr ''shuffle'')])
     = (\<lparr>result = None, error = Some ''User ID is required''\<rparr>, demo_world 1000 spotify)
   \<and> ''User ID is required'' \<noteq> ''Invalid action. Use: play, pause, next, previous''"
  by (simp add: tool_control_playback_def control_playback_try_def endpoint_def
        error_response_def uid_required_def lower_def is_ascii_def lower_char_def)

text \<open>
  C10, as amended. The action is lowered and checked against the accepted set before
  the credential record is looked up: for a non-empty uid with no stored credentials, a
  request whose action is a string (or absent) that is not in the accepted set once
  lowered gets the invalid-action message, not the connect-your-account message; that
  one it gets when the lowered action is accepted.
\<close>

theorem control_playback_validates_before_credentials:
  assumes "py_get body ''uid'' JNull = Inr u" and "truthy u"
      and "get_spotify_tokens w u = None"
      and "py_get body ''action'' (JStr []) = Inr (JStr a)"
  shows "(lower w a \<notin> {''play'', ''pause'', ''next'', ''previous'', ''skip''} \<longrightarrow>
            tool_control_playback w body =
              (\<lparr>result = None, error = Some ''Invalid action. Use: play, pause, next, previous''\<rparr>, w))
         \<and> (lower w a \<in> {''play'', ''pause'', ''next'', ''previous'', ''skip''} \<longrightarrow>
            tool_control_playback w body =
              (\<lparr>result = None,
                error = Some ''Please connect your Spotify account first in the app settings.''\<rparr>, w))"
  using control_playback_guards [OF assms(1,2,4), of w] assms(3)
  by (simp add: error_response_def invalid_action_def connect_first_def accepted_actions_def)

text \<open>The uid \<^verbatim>\<open>u2\<close> has no record: \<^verbatim>\<open>SHUFFLE\<close> is refused as an action; \<^verbatim>\<open>Pause\<close>, and
  \<^verbatim>\<open>skip\<close> spelt with the Kelvin sign for its \<^verbatim>\<open>k\<close>, are accepted and refused for the missing
  account.\<close>

theorem control_playback_validates_before_credentials_witness:
  "get_spotify_tokens (demo_world 1000 spotify) (JStr ''u2'') = None
   \<and> tool_control_playback (demo_world 1000 spotify)
        (JObj [(''uid'', JStr ''u2''), (''action'', JStr ''SHUFFLE'')])
      = (\<lparr>result = None, error = Some ''Invalid action. Use: play, pause, next, previous''\<rparr>,
         demo_world 1000 spotify)
   \<and> tool_control_playback (demo_world 1000 spotify)
        (JObj [(''uid'', JStr ''u2''), (''action'', JStr ''Pause'')])
      = (\<lparr>result = None,
          error = Some ''Please connect your Spotify account first in the app settings.''\<rparr>,
         demo_world 1000 spotify)
   \<and> tool_control_playback (demo_world 1000 spotify)
        (JObj [(''uid'', JStr ''u2''),
               (''action'', JStr (''s'' @ [CHR 0xE2, CHR 0x84, CHR 0xAA] @ ''ip''))])
      = (\<lparr>result = None,
          error = Some ''Please connect your Spotify account first in the app settings.''\<rparr>,
         demo_world 1000 spotify)"
proof -
  have none: "get_spotify_tokens (demo_world 1000 spotify) (JStr ''u2'') = None"
    by (simp add: get_spotify_tokens_def demo_world_def)
  have l: "lower (demo_world 1000 spotify) ''SHUFFLE'' = ''shuffle''"
    "lower (demo_world 1000 spotify) ''Pause'' = ''pause''"
    "lower (demo_world 1000 spotify) (''s'' @ [CHR 0xE2, CHR 0x84, CHR 0xAA] @ ''ip'') = ''skip''"
    by (simp_all add: lower_def is_ascii_def lower_char_def demo_world_def)
  note a = control_playback_validates_before_credentials
      [of "JObj [(''uid'', JStr ''u2''), (''action'', JStr ''SHUFFLE'')]" "JStr ''u2''"
          "demo_world 1000 spotify" "''SHUFFLE''", OF _ _ none]
  note b = control_playback_validates_before_credentials
      [of "JObj [(''uid'', JStr ''u2''), (''action'', JStr ''Pause'')]" "JStr ''u2''"
          "demo_world 1000 spotify" "''Pause''", OF _ _ none]
  note c = control_playback_validates_before_credentials
      [of "JObj [(''uid'', JStr ''u2''),
                 (''action'', JStr (''s'' @ [CHR 0xE2, CHR 0x84, CHR 0xAA] @ ''ip''))]" "JStr ''u2''"
          "demo_world 1000 spotify" "''s'' @ [CHR 0xE2, CHR 0x84, CHR 0xAA] @ ''ip''", OF _ _ none]
  have a': "tool_control_playback (demo_world 1000 spotify)
        (JObj [(''uid'', JStr ''u2''), (''action'', JStr ''SHUFFLE'')])
      = (\<lparr>result = None, error = Some ''Invalid action. Use: play, pause, next, previous''\<rparr>,
         demo_world 1000 spotify)"
    using a l(1) by simp
  have b': "tool_control_playback (demo_world 1000 spotify)
        (JObj [(''uid'', JStr ''u2''), (''action'', JStr ''Pause'')])
      = (\<lparr>result = None,
          error = Some ''Please connect your Spotify account first in the app settings.''\<rparr>,
         demo_world 1000 spotify)"
    using b l(2) by simp
  have c': "tool_control_playback (demo_world 1000 spotify)
        (JObj [(''uid'', JStr ''u2''),
               (''action'', JStr (''s'' @ [CHR 0xE2, CHR 0x84, CHR 0xAA] @ ''ip''))])
      = (\<lparr>result = None,
          error = Some ''Please connect your Spotify account first in the app settings.''\<rparr>,
         demo_world 1000 spotify)"
    using c l(3) by (simp del: append.simps)
  show ?thesis using none a' b' c' by blast
qed

text \<open>
  C10 as stated fails: for the uid \<^verbatim>\<open>u2\<close>, which has no record, the action \<^verbatim>\<open>5\<close> is no
  recognised action, yet the answer is not the invalid-action message: \<^verbatim>\<open>.lower()\<close> on the
  number raises, and the handler answers with the text of that exception.
\<close>

theorem control_playback_number_as_action:
  "get_spotify_tokens (demo_world 1000 spotify) (JStr ''u2'') = None
   \<and> tool_control_playback (demo_world 1000 spotify)
        (JObj [(''uid'', JStr ''u2''), (''action'', JInt 5)])
      = (\<lparr>result = None,
          error = Some (''Playback control failed: 'int' object has no attribute 'lower'' @ [CHR 0x27])\<rparr>,
         demo_world 1000 spotify)
   \<and> ''Playback control failed: 'int' object has no attribute 'lower'' @ [CHR 0x27]
       \<noteq> ''Invalid action. Use: play, pause, next, previous''"
  by (simp add: tool_control_playback_def control_playback_try_def endpoint_def
        error_response_def get_spotify_tokens_def demo_world_def)

subsection \<open>control_playback: skip and next\<close>




subsection \<open>A user without a credential record\<close>

lemma not_connected_error:
  assumes "py_get body ''uid'' JNull = Inr u" and "truthy u" and "get_spotify_tokens w u = None"
  shows "result (fst (tool_search_songs w body)) = None \<and> error (fst (tool_search_songs w body)) \<noteq> None"
    and "result (fst (tool_add_to_playlist w body)) = None \<and> error (fst (tool_add_to_playlist w body)) \<noteq> None"
    and "result (fst (tool_create_playlist w body)) = None \<and> error (fst (tool_create_playlist w body)) \<noteq> None"
    and "result (fst (tool_get_playlists w body)) = None \<and> error (fst (tool_get_playlists w body)) \<noteq> None"
    and "result (fst (tool_get_now_playing w body)) = None \<and> error (fst (tool_get_now_playing w body)) \<noteq> None"
    and "result (fst (tool_control_playback w body)) = None \<and> error (fst (tool_control_playback w body)) \<noteq> None"
    and "result (fst (tool_play_song w body)) = None \<and> error (fst (tool_play_song w body)) \<noteq> None"
    and "result (fst (tool_get_recommendations w body)) = None \<and> error (fst (tool_get_recommendations w body)) \<noteq> None"
proof -
  from assms(1) obtain kvs where body: "body = JObj kvs"
    by (blast dest: py_get_object)
  have u: "(case map_of kvs ''uid'' of None \<Rightarrow> JNull | Some v \<Rightarrow> v) = u"
    using assms(1) unfolding body py_get_field by simp
  show "result (fst (tool_search_songs w body)) = None \<and> error (fst (tool_search_songs w body)) \<noteq> None"
    using u assms(2,3) unfolding body tool_defs try_defs py_get_field
    by (simp add: endpoint_def error_response_def)
  show "result (fst (tool_add_to_playlist w body)) = None \<and> error (fst (tool_add_to_playlist w body)) \<noteq> None"
    using u assms(2,3) unfolding body tool_defs try_defs py_get_field
    by (simp add: endpoint_def error_response_def)
  show "result (fst (tool_create_playlist w body)) = None \<and> error (fst (tool_create_playlist w body)) \<noteq> None"
    using u assms(2,3) unfolding body tool_defs try_defs py_get_field
    by (simp add: endpoint_def error_response_def)
  show "result (fst (tool_get_playlists w body)) = None \<and> error (fst (tool_get_playlists w body)) \<noteq> None"
    using u assms(2,3) unfolding body tool_defs try_defs py_get_field
    by (simp add: endpoint_def error_response_def)
  show "result (fst (tool_get_now_playing w body)) = None \<and> error (fst (tool_get_now_playing w body)) \<noteq> None"
    using u assms(2,3) unfolding body tool_defs try_defs py_get_field
    by (simp add: endpoint_def error_response_def)
  show "result (fst (tool_control_playback w body)) = None \<and> error (fst (tool_control_playback w body)) \<noteq> None"
    using u assms(2,3) unfolding body tool_defs try_defs py_get_field
    by (cases "py_lower w (case map_of kvs ''action'' of None \<Rightarrow> JStr [] | Some v \<Rightarrow> v)")
       (simp_all add: endpoint_def error_response_def)
  show "result (fst (tool_play_song w body)) = None \<and> error (fst (tool_play_song w body)) \<noteq> None"
    using u assms(2,3) unfolding body tool_defs try_defs py_get_field
    by (simp add: endpoint_def error_response_def)
  show "result (fst (tool_get_recommendations w body)) = None \<and> error (fst (tool_get_recommendations w body)) \<noteq> None"
    using u assms(2,3) unfolding body tool_defs try_defs py_get_field
    by (simp add: endpoint_def error_response_def)
qed

lemma not_connected_message:
  assumes "py_get body ''uid'' JNull = Inr u" and "truthy u" and "get_spotify_tokens w u = None"
  shows "tool_get_playlists w body = (error_response connect_first, w)"
    and "tool_get_now_playing w body = (error_response connect_first, w)"
    and "tool_get_recommendations w body = (error_response connect_first, w)"
    and "py_get body ''query'' (JStr []) = Inr q \<Longrightarrow> truthy q \<Longrightarrow>
           tool_search_songs w body = (error_response connect_first, w)"
    and "py_get body ''song_name'' (JStr []) = Inr s \<Longrightarrow> truthy s \<Longrightarrow>
           tool_add_to_playlist w body = (error_response connect_first, w)"
    and "py_get body ''song_name'' (JStr []) = Inr s \<Longrightarrow> truthy s \<Longrightarrow>
           tool_play_song w body = (error_response connect_first, w)"
    and "py_get body ''name'' (JStr []) = Inr n \<Longrightarrow> truthy n \<Longrightarrow>
           tool_create_playlist w body = (error_response connect_first, w)"
    and "py_get body ''action'' (JStr []) = Inr (JStr a) \<Longrightarrow> lower w a \<in> set accepted_actions \<Longrightarrow>
           tool_control_playback w body = (error_response connect_first, w)"
proof -
  from assms(1) obtain kvs where body: "body = JObj kvs"
    by (blast dest: py_get_object)
  have u: "(case map_of kvs ''uid'' of None \<Rightarrow> JNull | Some v \<Rightarrow> v) = u"
    using assms(1) unfolding body py_get_field by simp
  show "tool_get_playlists w body = (error_response connect_first, w)"
    using u assms(2,3) unfolding body tool_defs try_defs py_get_field
    by (simp add: endpoint_def)
  show "tool_get_now_playing w body = (error_response connect_first, w)"
    using u assms(2,3) unfolding body tool_defs try_defs py_get_field
    by (simp add: endpoint_def)
  show "tool_get_recommendations w body = (error_response connect_first, w)"
    using u assms(2,3) unfolding body tool_defs try_defs py_get_field
    by (simp add: endpoint_def)
  show "tool_search_songs w body = (error_response connect_first, w)"
    if "py_get body ''query'' (JStr []) = Inr q" "truthy q"
    using that u assms(2,3) unfolding body tool_defs try_defs py_get_field
    by (simp add: endpoint_def)
  show "tool_add_to_playlist w body = (error_response connect_first, w)"
    if "py_get body ''song_name'' (JStr []) = Inr s" "truthy s"
    using that u assms(2,3) unfolding body tool_defs try_defs py_get_field
    by (simp add: endpoint_def)
  show "tool_play_song w body = (error_response connect_first, w)"
    if "py_get body ''song_name'' (JStr []) = Inr s" "truthy s"
    using that u assms(2,3) unfolding body tool_defs try_defs py_get_field
    by (simp add: endpoint_def)
  show "tool_create_playlist w body = (error_response connect_first, w)"
    if "py_get body ''name'' (JStr []) = Inr n" "truthy n"
    using that u assms(2,3) unfolding body tool_defs try_defs py_get_field
    by (simp add: endpoint_def)
  show "tool_control_playback w body = (error_response connect_first, w)"
    if "py_get body ''action'' (JStr []) = Inr (JStr a)" "lower w a \<in> set accepted_actions"
    using that u assms(2,3) unfolding body tool_defs try_defs py_get_field
    by (simp add: endpoint_def)
qed

text \<open>
  C3, as amended. For a body with a non-empty uid that has no credential record, each of
  the eight tools returns a response with the error populated and the result empty. The
  text is the connect-your-account message for \<^verbatim>\<open>get_playlists\<close>, \<^verbatim>\<open>get_now_playing\<close> and
  \<^verbatim>\<open>get_recommendations\<close>, and for the other five when the input they check before the
  credentials is in order: a non-empty \<^verbatim>\<open>query\<close> (\<^verbatim>\<open>search_songs\<close>), a non-empty
  \<^verbatim>\<open>song_name\<close> (\<^verbatim>\<open>add_to_playlist\<close>, \<^verbatim>\<open>play_song\<close>), a non-empty \<^verbatim>\<open>name\<close>
  (\<^verbatim>\<open>create_playlist\<close>), a string action that lowers into the accepted set
  (\<^verbatim>\<open>control_playback\<close>).
\<close>

theorem not_connected_is_refused:
  assumes "py_get body ''uid'' JNull = Inr u" and "truthy u" and "get_spotify_tokens w u = None"
  shows "list_all (\<lambda>tool. result (fst (tool w body)) = None \<and> error (fst (tool w body)) \<noteq> None)
           [tool_search_songs, tool_add_to_playlist, tool_create_playlist, tool_get_playlists,
            tool_get_now_playing, tool_control_playback, tool_play_song, tool_get_recommendations]
     \<and> list_all (\<lambda>tool. fst (tool w body) =
                   \<lparr>result = None,
                    error = Some ''Please connect your Spotify account first in the app settings.''\<rparr>)
           [tool_get_playlists, tool_get_now_playing, tool_get_recommendations]
     \<and> (\<forall>q. py_get body ''query'' (JStr []) = Inr q \<and> truthy q \<longrightarrow>
            fst (tool_search_songs w body) =
              \<lparr>result = None,
               error = Some ''Please connect your Spotify account first in the app settings.''\<rparr>)
     \<and> (\<forall>s. py_get body ''song_name'' (JStr []) = Inr s \<and> truthy s \<longrightarrow>
            list_all (\<lambda>tool. fst (tool w body) =
                   \<lparr>result = None,
                    error = Some ''Please connect your Spotify account first in the app settings.''\<rparr>)
              [tool_add_to_playlist, tool_play_song])
     \<and> (\<forall>n. py_get body ''name'' (JStr []) = Inr n \<and> truthy n \<longrightarrow>
            fst (tool_create_playlist w body) =
              \<lparr>result = None,
               error = Some ''Please connect your Spotify account first in the app settings.''\<rparr>)
     \<and> (\<forall>a. py_get body ''action'' (JStr []) = Inr (JStr a)
              \<and> lower w a \<in> {''play'', ''pause'', ''next'', ''previous'', ''skip''} \<longrightarrow>
            fst (tool_control_playback w body) =
              \<lparr>result = None,
               error = Some ''Please connect your Spotify account first in the app settings.''\<rparr>)"
  using not_connected_error [OF assms] not_connected_message [OF assms]
  by (simp add: error_response_def connect_first_def accepted_actions_def)

text \<open>The uid \<^verbatim>\<open>u2\<close> has no record; with every required input given, all eight tools
  answer with the connect-your-account message.\<close>

theorem not_connected_is_refused_witness:
  "get_spotify_tokens (demo_world 1000 spotify) (JStr ''u2'') = None
   \<and> list_all (\<lambda>tool. fst (tool (demo_world 1000 spotify)
                 (JObj [(''uid'', JStr ''u2''), (''query'', JStr ''q''), (''song_name'', JStr ''s''),
                        (''name'', JStr ''n''), (''action'', JStr ''Play'')]))
               = \<lparr>result = None,
                  error = Some ''Please connect your Spotify account first in the app settings.''\<rparr>)
        [tool_search_songs, tool_add_to_playlist, tool_create_playlist, tool_get_playlists,
         tool_get_now_playing, tool_control_playback, tool_play_song, tool_get_recommendations]"
proof -
  have none: "get_spotify_tokens (demo_world 1000 spotify) (JStr ''u2'') = None"
    by (simp add: get_spotify_tokens_def demo_world_def)
  have act: "lower (demo_world 1000 spotify) ''Play'' = ''play''"
    by (simp add: lower_def is_ascii_def lower_char_def)
  note th = not_connected_is_refused
      [of "JObj [(''uid'', JStr ''u2''), (''query'', JStr ''q''), (''song_name'', JStr ''s''),
                 (''name'', JStr ''n''), (''action'', JStr ''Play'')]" "JStr ''u2''"
          "demo_world 1000 spotify", OF _ _ none]
  from th act none show ?thesis
    by simp
qed

text \<open>
  C3 as stated fails: for the uid \<^verbatim>\<open>u2\<close>, which has no record, \<^verbatim>\<open>search_songs\<close> without a
  query answers \<^verbatim>\<open>Search query is required\<close>; the query is checked before the record.
\<close>

theorem search_songs_without_query_not_connected:
  "get_spotify_tokens (demo_world 1000 spotify) (JStr ''u2'') = None
   \<and> fst (tool_search_songs (demo_world 1000 spotify) (JObj [(''uid'', JStr ''u2'')]))
      = \<lparr>result = None, error = Some ''Search query is required''\<rparr>
   \<and> ''Search query is required'' \<noteq> ''Please connect your Spotify account first in the app settings.''"
  by (simp add: tool_search_songs_def search_songs_try_def endpoint_def get_spotify_tokens_def
        demo_world_def error_response_def)

end
